theory Spec2Isabelle
  imports Complex_Main "HOL-Library.Word"
begin

unbundle bit_operations_syntax

section \<open>The connection engine of \<^verbatim>\<open>lib/proto/proto_conn.c\<close>\<close>

subsection \<open>Pointers, calls into the libraries, and their record\<close>

text \<open>
  A C pointer that the connection code only stores, compares with \<^verbatim>\<open>NULL\<close> and hands
  back to a library is an opaque handle: \<open>None\<close> is \<^verbatim>\<open>NULL\<close>, \<open>Some n\<close> is the
  non-null pointer number \<open>n\<close>. File descriptors and the \<^verbatim>\<open>int\<close> flags are integers;
  the code never does arithmetic on them, it only compares them with \<open>0\<close> and \<open>-1\<close>.
\<close>

type_synonym ptr = "nat option"
type_synonym fd = int

text \<open>
  Modelled from the spec: the reason codes \<^verbatim>\<open>PROTO_CONN_*\<close> are macros of
  \<^verbatim>\<open>proto_conn.h\<close>, which is not among the sources; the spec (section 4.5) lists these
  four. Only their names matter to the code below.
\<close>

datatype reason =
    PROTO_CONN_CLOSED
  | PROTO_CONN_CONNECT_FAILED
  | PROTO_CONN_HANDSHAKE_FAILED
  | PROTO_CONN_ERROR

text \<open>The five static callbacks of the file, as the function pointers it registers.\<close>

datatype callback =
    CB_connect_done
  | CB_connect_timeout
  | CB_handshake_done
  | CB_handshake_timeout
  | CB_pipestatus

text \<open>The two status variables whose addresses are given to the pipes.\<close>

datatype statvar = Stat_f | Stat_r

datatype socklevel = SOL_SOCKET | IPPROTO_TCP
datatype sockopt = SO_KEEPALIVE | TCP_NODELAY

text \<open>
  Every call the file makes into libc and into the event, network, handshake, pipe and
  address libraries is an event, with the arguments of the call in the order of the C
  prototype; left out are the cookie argument of a registration, which is always the
  connection state itself, and the sizes given to \<^verbatim>\<open>malloc\<close> and \<^verbatim>\<open>setsockopt\<close>. A call
  that acquires something (\<^verbatim>\<open>malloc\<close>, a timer, a dial, a handshake, a pipe) carries the
  pointer it returned as its last argument.
\<close>

datatype event =
    Malloc ptr
  | Free
  | Close fd
  | Setsockopt fd socklevel sockopt int
  | Events_timer_register_double callback real ptr
  | Events_timer_cancel ptr
  | Network_connect_bind ptr ptr callback ptr
  | Network_connect_cancel ptr
  | Proto_handshake fd int int int ptr callback ptr
  | Proto_handshake_cancel ptr
  | Proto_pipe fd fd int ptr statvar callback ptr
  | Proto_pipe_cancel ptr
  | Proto_crypt_free ptr
  | Sock_addr_freelist ptr
  | Callback_dead ptr reason

text \<open>
  The libraries are not part of the file. What an acquiring call returns is decided by
  the environment, an arbitrary function of everything that has been called so far; so
  each of these calls can fail (return \<^verbatim>\<open>NULL\<close>) at any time.
\<close>

type_synonym environment = "event list \<Rightarrow> ptr"

definition acquire :: "environment \<Rightarrow> (ptr \<Rightarrow> event) \<Rightarrow> event list \<Rightarrow> ptr \<times> event list" where
  "acquire E call tr = (let r = E tr in (r, tr @ [call r]))"

definition emit :: "event \<Rightarrow> event list \<Rightarrow> event list" where
  "emit e tr = tr @ [e]"

subsection \<open>\<^verbatim>\<open>struct conn_state\<close>\<close>

text \<open>
  The death callback is a function pointer; its call is the event \<open>Callback_dead\<close>,
  and the field holds the return code it gives for a cookie and a reason.
\<close>

record conn_state =
  callback_dead :: "ptr \<Rightarrow> reason \<Rightarrow> int"
  cookie :: ptr
  sas :: ptr
  decr :: int
  nopfs :: int
  requirepfs :: int
  nokeepalive :: int
  K :: ptr
  timeo :: real
  s :: fd
  t :: fd
  connect_cookie :: ptr
  connect_timeout_cookie :: ptr
  handshake_cookie :: ptr
  handshake_timeout_cookie :: ptr
  k_f :: ptr
  k_r :: ptr
  pipe_f :: ptr
  pipe_r :: ptr
  stat_f :: int
  stat_r :: int

subsection \<open>\<^verbatim>\<open>starthandshake\<close>, \<^verbatim>\<open>launchpipes\<close>\<close>

text \<open>
  Lines 51 to 136 of the file. Each function takes the state and the calls made so far
  and returns its return code, the state as it leaves it, and the calls.
\<close>

definition starthandshake ::
  "environment \<Rightarrow> conn_state \<Rightarrow> fd \<Rightarrow> int \<Rightarrow> event list \<Rightarrow> int \<times> conn_state \<times> event list" where
  "starthandshake E C0 sock dec tr0 =
    (let (h, tr) = acquire E (Events_timer_register_double CB_handshake_timeout (timeo C0)) tr0;
         C = C0\<lparr>handshake_timeout_cookie := h\<rparr>
     in if h = None then (-1, C, tr)
        else
          let (h', tr) = acquire E
                 (Proto_handshake sock dec (nopfs C) (requirepfs C) (K C) CB_handshake_done) tr;
              C = C\<lparr>handshake_cookie := h'\<rparr>
          in if h' = None
             then (let tr = emit (Events_timer_cancel (handshake_timeout_cookie C)) tr;
                       C = C\<lparr>handshake_timeout_cookie := None\<rparr>
                   in (-1, C, tr))
             else (0, C, tr))"

definition launchpipes ::
  "environment \<Rightarrow> conn_state \<Rightarrow> event list \<Rightarrow> int \<times> conn_state \<times> event list" where
  "launchpipes E C0 tr0 =
    (let on = (if nokeepalive C0 \<noteq> 0 then 0 else 1);
         one = 1;
         tr = emit (Setsockopt (s C0) SOL_SOCKET SO_KEEPALIVE on) tr0;
         tr = emit (Setsockopt (t C0) SOL_SOCKET SO_KEEPALIVE on) tr;
         tr = emit (Setsockopt (s C0) IPPROTO_TCP TCP_NODELAY one) tr;
         tr = emit (Setsockopt (t C0) IPPROTO_TCP TCP_NODELAY one) tr;
         (p, tr) = acquire E
            (Proto_pipe (s C0) (t C0) (decr C0) (k_f C0) Stat_f CB_pipestatus) tr;
         C = C0\<lparr>pipe_f := p\<rparr>
     in if p = None then (-1, C, tr)
        else
          let (p', tr) = acquire E
                 (Proto_pipe (t C) (s C) (if decr C = 0 then 1 else 0) (k_r C) Stat_r
                    CB_pipestatus) tr;
              C = C\<lparr>pipe_r := p'\<rparr>
          in if p' = None then (-1, C, tr) else (0, C, tr))"

subsection \<open>\<^verbatim>\<open>proto_conn_drop\<close>\<close>

text \<open>
  Lines 143 to 191. The state is freed by the call, so only the return code and the
  calls remain.
\<close>

definition proto_conn_drop :: "conn_state \<Rightarrow> reason \<Rightarrow> event list \<Rightarrow> int \<times> event list" where
  "proto_conn_drop C why tr0 =
    (let tr = emit (Close (s C)) tr0;
         tr = (if t C \<noteq> -1 then emit (Close (t C)) tr else tr);
         tr = (if connect_cookie C \<noteq> None
               then emit (Network_connect_cancel (connect_cookie C)) tr else tr);
         tr = emit (Sock_addr_freelist (sas C)) tr;
         tr = (if handshake_cookie C \<noteq> None
               then emit (Proto_handshake_cancel (handshake_cookie C)) tr else tr);
         tr = (if connect_timeout_cookie C \<noteq> None
               then emit (Events_timer_cancel (connect_timeout_cookie C)) tr else tr);
         tr = (if handshake_timeout_cookie C \<noteq> None
               then emit (Events_timer_cancel (handshake_timeout_cookie C)) tr else tr);
         tr = emit (Proto_crypt_free (k_f C)) tr;
         tr = emit (Proto_crypt_free (k_r C)) tr;
         tr = (if pipe_f C \<noteq> None then emit (Proto_pipe_cancel (pipe_f C)) tr else tr);
         tr = (if pipe_r C \<noteq> None then emit (Proto_pipe_cancel (pipe_r C)) tr else tr);
         rc = callback_dead C (cookie C) why;
         tr = emit (Callback_dead (cookie C) why) tr;
         tr = emit Free tr
     in (rc, tr))"

subsection \<open>\<^verbatim>\<open>proto_conn_create\<close>\<close>

text \<open>
  Lines 210 to 268. The labels \<^verbatim>\<open>err3\<close>, \<^verbatim>\<open>err2\<close>, \<^verbatim>\<open>err1\<close> fall through into one
  another; \<^verbatim>\<open>err0\<close> only returns \<^verbatim>\<open>NULL\<close>. The result is the state, or \<open>None\<close> for
  \<^verbatim>\<open>NULL\<close>, and the calls.
\<close>

definition create_err1 :: "conn_state \<Rightarrow> event list \<Rightarrow> conn_state option \<times> event list" where
  "create_err1 C tr = (None, emit Free tr)"

definition create_err2 :: "conn_state \<Rightarrow> event list \<Rightarrow> conn_state option \<times> event list" where
  "create_err2 C tr = create_err1 C (emit (Events_timer_cancel (connect_timeout_cookie C)) tr)"

definition create_err3 :: "conn_state \<Rightarrow> event list \<Rightarrow> conn_state option \<times> event list" where
  "create_err3 C tr = create_err2 C (emit (Network_connect_cancel (connect_cookie C)) tr)"

definition proto_conn_create ::
  "environment \<Rightarrow> fd \<Rightarrow> ptr \<Rightarrow> ptr \<Rightarrow> int \<Rightarrow> int \<Rightarrow> int \<Rightarrow> int \<Rightarrow> ptr \<Rightarrow> real \<Rightarrow>
   (ptr \<Rightarrow> reason \<Rightarrow> int) \<Rightarrow> ptr \<Rightarrow> event list \<Rightarrow> conn_state option \<times> event list" where
  "proto_conn_create E a_s a_sas a_sa_b a_decr a_nopfs a_requirepfs a_nokeepalive a_K a_timeo
      a_callback_dead a_cookie tr0 =
    (let (m, tr) = acquire E Malloc tr0
     in if m = None then (None, tr)
        else
          let C = \<lparr>callback_dead = a_callback_dead, cookie = a_cookie, sas = a_sas,
                    decr = a_decr, nopfs = a_nopfs, requirepfs = a_requirepfs,
                    nokeepalive = a_nokeepalive, K = a_K, timeo = a_timeo,
                    s = a_s, t = -1,
                    connect_cookie = None, connect_timeout_cookie = None,
                    handshake_cookie = None, handshake_timeout_cookie = None,
                    k_f = None, k_r = None, pipe_f = None, pipe_r = None,
                    stat_f = 1, stat_r = 1\<rparr>;
              (h, tr) = acquire E (Events_timer_register_double CB_connect_timeout (timeo C)) tr;
              C = C\<lparr>connect_timeout_cookie := h\<rparr>
          in if h = None then create_err1 C tr
             else
               let (h', tr) = acquire E (Network_connect_bind (sas C) a_sa_b CB_connect_done) tr;
                   C = C\<lparr>connect_cookie := h'\<rparr>
               in if h' = None then create_err2 C tr
                  else if decr C \<noteq> 0
                  then (let (rc, C, tr) = starthandshake E C (s C) (decr C) tr
                        in if rc \<noteq> 0 then create_err3 C tr else (Some C, tr))
                  else (Some C, tr))"

subsection \<open>The callbacks\<close>

text \<open>
  Lines 271 to 404. A callback returns its return code, the state if it is still
  allocated (\<open>None\<close> once \<^verbatim>\<open>proto_conn_drop\<close> has freed it), and the calls made.
\<close>

type_synonym cb_result = "int \<times> conn_state option \<times> event list"

definition dropped :: "conn_state \<Rightarrow> reason \<Rightarrow> event list \<Rightarrow> cb_result" where
  \<comment> \<open>\<^verbatim>\<open>return (proto_conn_drop(C, reason));\<close>\<close>
  "dropped C why tr = (let (rc, tr) = proto_conn_drop C why tr in (rc, None, tr))"

definition cb_err1 :: "conn_state \<Rightarrow> event list \<Rightarrow> cb_result" where
  \<comment> \<open>the label \<^verbatim>\<open>err1\<close> of both completion callbacks\<close>
  "cb_err1 C tr = (let (rc, tr) = proto_conn_drop C PROTO_CONN_ERROR tr in (-1, None, tr))"

definition callback_connect_done ::
  "environment \<Rightarrow> conn_state \<Rightarrow> fd \<Rightarrow> event list \<Rightarrow> cb_result" where
  "callback_connect_done E C0 a_t tr0 =
    (let C = C0\<lparr>connect_cookie := None\<rparr>;
         tr = emit (Sock_addr_freelist (sas C)) tr0;
         C = C\<lparr>sas := None\<rparr>;
         tr = emit (Events_timer_cancel (connect_timeout_cookie C)) tr;
         C = C\<lparr>connect_timeout_cookie := None\<rparr>;
         C = C\<lparr>t := a_t\<rparr>
     in if t C = -1 then dropped C PROTO_CONN_CONNECT_FAILED tr
        else
          let (rc, C, tr) =
                (if decr C = 0 then starthandshake E C (t C) (decr C) tr else (0, C, tr))
          in if rc \<noteq> 0 then cb_err1 C tr
             else if t C \<noteq> -1 \<and> k_f C \<noteq> None \<and> k_r C \<noteq> None
             then (let (rc, C, tr) = launchpipes E C tr
                   in if rc \<noteq> 0 then cb_err1 C tr else (0, Some C, tr))
             else (0, Some C, tr))"

definition callback_connect_timeout :: "conn_state \<Rightarrow> event list \<Rightarrow> cb_result" where
  "callback_connect_timeout C0 tr =
    (let C = C0\<lparr>connect_timeout_cookie := None\<rparr>
     in dropped C PROTO_CONN_ERROR tr)"

text \<open>
  The handshake callback has two \<^verbatim>\<open>assert\<close>s; a failed one aborts the process, which
  is the result \<open>Inl Assertion_failed\<close>.
\<close>

datatype abort = Assertion_failed

definition callback_handshake_done ::
  "environment \<Rightarrow> conn_state \<Rightarrow> ptr \<Rightarrow> ptr \<Rightarrow> event list \<Rightarrow> abort + cb_result" where
  "callback_handshake_done E C0 f r tr0 =
    (let C = C0\<lparr>handshake_cookie := None\<rparr>;
         tr = emit (Events_timer_cancel (handshake_timeout_cookie C)) tr0;
         C = C\<lparr>handshake_timeout_cookie := None\<rparr>
     in if f = None \<and> r = None then Inr (dropped C PROTO_CONN_HANDSHAKE_FAILED tr)
        else if f = None then Inl Assertion_failed
        else if r = None then Inl Assertion_failed
        else
          let C = C\<lparr>k_f := f\<rparr>;
              C = C\<lparr>k_r := r\<rparr>
          in if t C \<noteq> -1 \<and> k_f C \<noteq> None \<and> k_r C \<noteq> None
             then (let (rc, C, tr) = launchpipes E C tr
                   in if rc \<noteq> 0 then Inr (cb_err1 C tr) else Inr (0, Some C, tr))
             else Inr (0, Some C, tr))"

definition callback_handshake_timeout :: "conn_state \<Rightarrow> event list \<Rightarrow> cb_result" where
  "callback_handshake_timeout C0 tr =
    (let C = C0\<lparr>handshake_timeout_cookie := None\<rparr>
     in dropped C PROTO_CONN_ERROR tr)"

definition callback_pipestatus :: "conn_state \<Rightarrow> event list \<Rightarrow> cb_result" where
  "callback_pipestatus C tr =
    (if stat_f C = -1 \<or> stat_r C = -1 then dropped C PROTO_CONN_ERROR tr
     else if stat_f C = 0 \<and> stat_r C = 0 then dropped C PROTO_CONN_CLOSED tr
     else (0, Some C, tr))"

subsection \<open>The event loop\<close>

text \<open>
  Modelled from the spec: the event loop, the network, handshake and pipe libraries and
  the caller of the file are not among the sources. By the spec (sections 3, 5 and 6)
  callbacks run one at a time; a completion or a timer callback runs only while its
  handle is registered, which the code tracks as a non-null cookie; a pipe writes its
  status variable and then calls the status callback; the upstream may call
  \<^verbatim>\<open>proto_conn_drop\<close> on a connection it was given. A dispatch is one such entry into
  the file.
\<close>

datatype dispatch =
    Connect_done fd
  | Connect_timeout
  | Handshake_done ptr ptr
  | Handshake_timeout
  | Pipestatus statvar int
  | Drop reason

text \<open>
  The world: the connection state while it is allocated, and every call made so far.
  A turn gives no world when the dispatch cannot happen (the state is freed, the handle
  is not registered) or when the callback aborts the process.
\<close>

type_synonym world = "conn_state option \<times> event list"

fun turn :: "environment \<Rightarrow> dispatch \<Rightarrow> world \<Rightarrow> world option" where
  "turn E d (None, tr) = None"
| "turn E (Connect_done a_t) (Some C, tr) =
    (if connect_cookie C = None then None
     else (let (rc, c, tr') = callback_connect_done E C a_t tr in Some (c, tr')))"
| "turn E Connect_timeout (Some C, tr) =
    (if connect_timeout_cookie C = None then None
     else (let (rc, c, tr') = callback_connect_timeout C tr in Some (c, tr')))"
| "turn E (Handshake_done f r) (Some C, tr) =
    (if handshake_cookie C = None then None
     else (case callback_handshake_done E C f r tr of
             Inl a \<Rightarrow> None
           | Inr (rc, c, tr') \<Rightarrow> Some (c, tr')))"
| "turn E Handshake_timeout (Some C, tr) =
    (if handshake_timeout_cookie C = None then None
     else (let (rc, c, tr') = callback_handshake_timeout C tr in Some (c, tr')))"
| "turn E (Pipestatus Stat_f v) (Some C, tr) =
    (if pipe_f C = None then None
     else (let (rc, c, tr') = callback_pipestatus (C\<lparr>stat_f := v\<rparr>) tr in Some (c, tr')))"
| "turn E (Pipestatus Stat_r v) (Some C, tr) =
    (if pipe_r C = None then None
     else (let (rc, c, tr') = callback_pipestatus (C\<lparr>stat_r := v\<rparr>) tr in Some (c, tr')))"
| "turn E (Drop why) (Some C, tr) =
    (let (rc, tr') = proto_conn_drop C why tr in Some (None, tr'))"

fun run :: "environment \<Rightarrow> dispatch list \<Rightarrow> world \<Rightarrow> world option" where
  "run E [] w = Some w"
| "run E (d # ds) w = (case turn E d w of None \<Rightarrow> None | Some w' \<Rightarrow> run E ds w')"

subsection \<open>Reading a record of calls\<close>

text \<open>The events a drop emits for a state, written as one list.\<close>

definition opt_call :: "ptr \<Rightarrow> (ptr \<Rightarrow> event) \<Rightarrow> event list" where
  "opt_call p call = (case p of None \<Rightarrow> [] | Some h \<Rightarrow> [call (Some h)])"

definition is_dead :: "event \<Rightarrow> bool" where
  "is_dead e = (case e of Callback_dead c why \<Rightarrow> True | _ \<Rightarrow> False)"

definition is_launch :: "event \<Rightarrow> bool" where
  \<comment> \<open>the first call of \<^verbatim>\<open>launchpipes\<close> that creates a pipe: the one given \<^verbatim>\<open>&C->stat_f\<close>\<close>
  "is_launch e = (case e of Proto_pipe a b d k sv cb p \<Rightarrow> sv = Stat_f | _ \<Rightarrow> False)"

definition launches :: "event list \<Rightarrow> nat" where
  "launches tr = length (filter is_launch tr)"

definition is_handshake :: "event \<Rightarrow> bool" where
  "is_handshake e = (case e of Proto_handshake a b c d k cb p \<Rightarrow> True | _ \<Rightarrow> False)"

definition is_freelist :: "event \<Rightarrow> bool" where
  "is_freelist e = (case e of Sock_addr_freelist p \<Rightarrow> True | _ \<Rightarrow> False)"

text \<open>An acquiring call that was refused: it returned \<^verbatim>\<open>NULL\<close>.\<close>

definition refused :: "event \<Rightarrow> bool" where
  "refused e = (case e of
      Malloc p \<Rightarrow> p = None
    | Events_timer_register_double cb x p \<Rightarrow> p = None
    | Network_connect_bind a b cb p \<Rightarrow> p = None
    | Proto_handshake a b c d k cb p \<Rightarrow> p = None
    | Proto_pipe a b d k sv cb p \<Rightarrow> p = None
    | _ \<Rightarrow> False)"

text \<open>
  The handles a record of calls registered (every acquiring call but \<^verbatim>\<open>malloc\<close> that
  returned non-null) and the handles it cancelled, each in the order of the calls. A
  handle is named by the library it belongs to and its pointer.
\<close>

datatype library = Timer | Dial | Handshake | Pipe

fun registered :: "event list \<Rightarrow> (library \<times> ptr) list" where
  "registered [] = []"
| "registered (Events_timer_register_double cb x (Some h) # tr) = (Timer, Some h) # registered tr"
| "registered (Network_connect_bind a b cb (Some h) # tr) = (Dial, Some h) # registered tr"
| "registered (Proto_handshake a b c d k cb (Some h) # tr) = (Handshake, Some h) # registered tr"
| "registered (Proto_pipe a b d k sv cb (Some h) # tr) = (Pipe, Some h) # registered tr"
| "registered (e # tr) = registered tr"

fun cancelled :: "event list \<Rightarrow> (library \<times> ptr) list" where
  "cancelled [] = []"
| "cancelled (Events_timer_cancel p # tr) = (Timer, p) # cancelled tr"
| "cancelled (Network_connect_cancel p # tr) = (Dial, p) # cancelled tr"
| "cancelled (Proto_handshake_cancel p # tr) = (Handshake, p) # cancelled tr"
| "cancelled (Proto_pipe_cancel p # tr) = (Pipe, p) # cancelled tr"
| "cancelled (e # tr) = cancelled tr"

definition is_crypt_free :: "event \<Rightarrow> bool" where
  "is_crypt_free e = (case e of Proto_crypt_free k \<Rightarrow> True | _ \<Rightarrow> False)"

text \<open>
  The condition under which the spec lets the pipes start: the dial has given a socket
  and both keys are there.
\<close>

definition launch_condition :: "conn_state \<Rightarrow> bool" where
  "launch_condition C = (t C \<noteq> -1 \<and> k_f C \<noteq> None \<and> k_r C \<noteq> None)"

text \<open>A successful dial among the dispatches.\<close>

definition is_dialed :: "dispatch \<Rightarrow> bool" where
  "is_dialed d = (case d of Connect_done a_t \<Rightarrow> a_t \<noteq> -1 | _ \<Rightarrow> False)"

text \<open>
  The invariant of the worlds a connection goes through. For a freed state only the
  record of calls is left.
\<close>

definition conn_inv :: "world \<Rightarrow> bool" where
  "conn_inv w = (case w of
      (None, tr) \<Rightarrow> launches tr \<le> 1
    | (Some C, tr) \<Rightarrow>
        (connect_cookie C \<noteq> None \<longrightarrow> t C = -1) \<and>
        (handshake_cookie C \<noteq> None \<longrightarrow> k_f C = None \<and> k_r C = None) \<and>
        (decr C = 0 \<and> connect_cookie C \<noteq> None \<longrightarrow>
           handshake_cookie C = None \<and> k_f C = None \<and> k_r C = None) \<and>
        ((k_f C = None) = (k_r C = None)) \<and>
        ((pipe_f C \<noteq> None) = (pipe_r C \<noteq> None)) \<and>
        ((pipe_f C \<noteq> None) = (t C \<noteq> -1 \<and> k_f C \<noteq> None \<and> k_r C \<noteq> None)) \<and>
        launches tr = (if pipe_f C = None then 0 else 1))"

subsection \<open>Example inputs\<close>

text \<open>
  Two environments: one that grants every call and returns a fresh pointer, and one
  that refuses the acquiring call made when \<open>n\<close> calls have been recorded. And the state
  of an encrypting connection (\<open>decr = 0\<close>) on socket 5 that is dialing, as
  \<^verbatim>\<open>proto_conn_create\<close> returns it under the first environment.
\<close>

definition env_ok :: environment where
  "env_ok tr = Some (length tr)"

definition env_refusing :: "nat \<Rightarrow> environment" where
  "env_refusing n tr = (if length tr = n then None else Some (length tr))"

definition dialing_state :: conn_state where
  "dialing_state =
     \<lparr>callback_dead = (\<lambda>c why. 0), cookie = Some 12, sas = Some 10, decr = 0, nopfs = 0,
      requirepfs = 0, nokeepalive = 0, K = Some 11, timeo = 5, s = 5, t = -1,
      connect_cookie = Some 2, connect_timeout_cookie = Some 1,
      handshake_cookie = None, handshake_timeout_cookie = None,
      k_f = None, k_r = None, pipe_f = None, pipe_r = None, stat_f = 1, stat_r = 1\<rparr>"

section \<open>The address codec of \<^verbatim>\<open>libcperciva/util/sock_util.c\<close>\<close>

subsection \<open>The host and \<^verbatim>\<open>struct sock_addr\<close>\<close>

text \<open>
  The serialization copies the bytes of an \<^verbatim>\<open>int\<close> and of a \<^verbatim>\<open>socklen_t\<close> as the host
  stores them. The host is LP64: \<^verbatim>\<open>int\<close> and \<^verbatim>\<open>socklen_t\<close> are 32 bits wide, and
  \<^verbatim>\<open>size_t\<close> is 64 bits wide, so that the sums of sizes below, all under \<open>2 ^ 33\<close>, do
  not wrap and are natural numbers. The byte order of the host is a parameter.
\<close>

type_synonym byte = "8 word"

datatype byte_order = Little_endian | Big_endian

definition sizeof_int :: nat where
  "sizeof_int = 4"

definition sizeof_socklen_t :: nat where
  "sizeof_socklen_t = 4"

text \<open>
  The four bytes of a 32-bit integer from the lowest address on a little-endian host,
  and the integer that a run of bytes stores there.
\<close>

definition le_bytes :: "32 word \<Rightarrow> byte list" where
  "le_bytes w = [ucast w, ucast (drop_bit 8 w), ucast (drop_bit 16 w), ucast (drop_bit 24 w)]"

fun le_word :: "byte list \<Rightarrow> 32 word" where
  "le_word [] = 0"
| "le_word (b # bs) = ucast b OR push_bit 8 (le_word bs)"

definition to_bytes :: "byte_order \<Rightarrow> 32 word \<Rightarrow> byte list" where
  \<comment> \<open>the object representation that \<^verbatim>\<open>memcpy\<close> reads from a 32-bit integer\<close>
  "to_bytes bo w = (case bo of Little_endian \<Rightarrow> le_bytes w | Big_endian \<Rightarrow> rev (le_bytes w))"

definition of_bytes :: "byte_order \<Rightarrow> byte list \<Rightarrow> 32 word" where
  \<comment> \<open>the 32-bit integer that \<^verbatim>\<open>memcpy\<close> writes from four bytes\<close>
  "of_bytes bo bs = (case bo of Little_endian \<Rightarrow> le_word bs | Big_endian \<Rightarrow> le_word (rev bs))"

text \<open>
  Modelled from the spec: \<^verbatim>\<open>struct sock_addr\<close> is declared in \<^verbatim>\<open>sock_internal.h\<close>,
  which is not among the sources. By the spec (section 3) an address carries a family, a
  socket type and the raw name bytes; the code reads the fields \<^verbatim>\<open>ai_family\<close> and
  \<^verbatim>\<open>ai_socktype\<close> with \<^verbatim>\<open>sizeof(int)\<close>, \<^verbatim>\<open>namelen\<close> with \<^verbatim>\<open>sizeof(socklen_t)\<close>, and
  \<^verbatim>\<open>name\<close> as a pointer to \<^verbatim>\<open>namelen\<close> bytes. The field \<open>name\<close> is the buffer that
  the pointer points to.
\<close>

record sock_addr =
  ai_family :: "32 word"
  ai_socktype :: "32 word"
  name :: "byte list"
  namelen :: "32 word"

text \<open>A valid address: the name buffer holds exactly \<^verbatim>\<open>namelen\<close> bytes.\<close>

definition valid_sock_addr :: "sock_addr \<Rightarrow> bool" where
  "valid_sock_addr sa = (length (name sa) = unat (namelen sa))"

text \<open>
  Allocation can fail at every call. The functions below take the answers of the
  allocator as a parameter: \<open>m i\<close> says whether the allocation number \<open>i\<close> made by the
  call (counted from 0) succeeds.
\<close>

type_synonym alloc = "nat \<Rightarrow> bool"

subsection \<open>\<^verbatim>\<open>sock_addr_cmp\<close>\<close>

text \<open>
  Lines 30 to 46. \<^verbatim>\<open>memcmp\<close> compares the first \<^verbatim>\<open>sa1->namelen\<close> bytes of the two name
  buffers.
\<close>

definition sock_addr_cmp :: "sock_addr \<Rightarrow> sock_addr \<Rightarrow> int" where
  "sock_addr_cmp sa1 sa2 =
    (if ai_family sa1 \<noteq> ai_family sa2 \<or> ai_socktype sa1 \<noteq> ai_socktype sa2 \<or>
        namelen sa1 \<noteq> namelen sa2 then 1
     else if take (unat (namelen sa1)) (name sa1) \<noteq> take (unat (namelen sa1)) (name sa2) then 1
     else 0)"

subsection \<open>\<^verbatim>\<open>sock_addr_serialize\<close>, \<^verbatim>\<open>sock_addr_deserialize\<close>\<close>

text \<open>
  Lines 126 to 152. \<^verbatim>\<open>sock_addr_serialize\<close> returns \<open>-1\<close> when the allocation fails,
  and otherwise gives the buffer and its length through its two pointer arguments. Its
  last \<^verbatim>\<open>memcpy\<close> reads \<^verbatim>\<open>namelen\<close> bytes of the name buffer; on a buffer that is
  shorter the read has no defined behaviour in C, a result of its own here.
\<close>

datatype failure = Call_failed | Read_out_of_bounds

definition sock_addr_serialize ::
  "byte_order \<Rightarrow> alloc \<Rightarrow> sock_addr \<Rightarrow> failure + byte list \<times> nat" where
  "sock_addr_serialize bo m sa =
    (let buflen = 2 * sizeof_int + sizeof_socklen_t + unat (namelen sa)
     in if \<not> m 0 then Inl Call_failed
        else if length (name sa) < unat (namelen sa) then Inl Read_out_of_bounds
        else Inr (to_bytes bo (ai_family sa) @ to_bytes bo (ai_socktype sa) @
                  to_bytes bo (namelen sa) @ take (unat (namelen sa)) (name sa),
                  buflen))"

text \<open>
  Lines 158 to 192. The buffer is the list of its \<^verbatim>\<open>buflen\<close> bytes. \<open>None\<close> is the
  \<^verbatim>\<open>NULL\<close> that every failure returns.
\<close>

definition sock_addr_deserialize :: "byte_order \<Rightarrow> alloc \<Rightarrow> byte list \<Rightarrow> sock_addr option" where
  "sock_addr_deserialize bo m buf0 =
    (let buflen = length buf0
     in if buflen < 2 * sizeof_int + sizeof_socklen_t then None
        else if \<not> m 0 then None
        else
          let family = of_bytes bo (take sizeof_int buf0);
              buf = drop sizeof_int buf0;
              socktype = of_bytes bo (take sizeof_int buf);
              buf = drop sizeof_int buf;
              len = of_bytes bo (take sizeof_socklen_t buf);
              buf = drop sizeof_socklen_t buf
          in if buflen \<noteq> 2 * sizeof_int + sizeof_socklen_t + unat len then None
             else if \<not> m 1 then None
             else Some \<lparr>ai_family = family, ai_socktype = socktype,
                         name = take (unat len) buf, namelen = len\<rparr>)"

text \<open>
  The fixed header of a serialized address, and the name length that a buffer declares
  in the third field of its header.
\<close>

definition header_size :: nat where
  "header_size = 2 * sizeof_int + sizeof_socklen_t"

definition declared_namelen :: "byte_order \<Rightarrow> byte list \<Rightarrow> nat" where
  "declared_namelen bo buf =
     unat (of_bytes bo (take sizeof_socklen_t (drop (2 * sizeof_int) buf)))"

subsection \<open>\<^verbatim>\<open>sock_addr_ensure_port\<close>\<close>

text \<open>
  Lines 288 to 351. A C string is the list of its characters before the terminating NUL,
  so the character at an index equal to the length is the NUL. \<^verbatim>\<open>strchr\<close> and
  \<^verbatim>\<open>strrchr\<close> return a pointer into the string, here the index of the first and of the
  last occurrence, or \<^verbatim>\<open>NULL\<close>.
\<close>

fun strchr :: "string \<Rightarrow> char \<Rightarrow> nat option" where
  "strchr [] c = None"
| "strchr (x # xs) c = (if x = c then Some 0 else map_option Suc (strchr xs c))"

fun strrchr :: "string \<Rightarrow> char \<Rightarrow> nat option" where
  "strrchr [] c = None"
| "strrchr (x # xs) c =
    (case strrchr xs c of
       Some i \<Rightarrow> Some (Suc i)
     | None \<Rightarrow> if x = c then Some 0 else None)"

definition strdup :: "alloc \<Rightarrow> string \<Rightarrow> string option" where
  "strdup m str = (if m 0 then Some str else None)"

definition asprintf :: "alloc \<Rightarrow> string \<Rightarrow> string option" where
  \<comment> \<open>the second argument is the formatted text; \<open>None\<close> is the return value \<open>-1\<close>\<close>
  "asprintf m str = (if m 0 then Some str else None)"

definition sock_addr_ensure_port :: "alloc \<Rightarrow> string \<Rightarrow> string option" where
  "sock_addr_ensure_port m addr =
    (let a = strchr addr CHR '':'';
         b = strrchr addr CHR '':'';
         c = strrchr addr CHR '']''
     in if (case addr of [] \<Rightarrow> False | ch # rest \<Rightarrow> ch = CHR ''/'') then strdup m addr
        else if a = None then asprintf m (addr @ '':0'')
        else if a = b then strdup m addr
        else (case c of
                None \<Rightarrow> asprintf m (''['' @ addr @ '']:0'')
              | Some i \<Rightarrow>
                  if Suc i = length addr then asprintf m (addr @ '':0'')
                  else strdup m addr))"

section \<open>Lemmas on the connection engine\<close>

subsection \<open>Reading a record of calls\<close>

lemma is_launch_simps [simp]:
  "is_launch (Malloc p) = False"
  "is_launch Free = False"
  "is_launch (Close a) = False"
  "is_launch (Setsockopt a l opt v) = False"
  "is_launch (Events_timer_register_double cb x p) = False"
  "is_launch (Events_timer_cancel p) = False"
  "is_launch (Network_connect_bind p1 p2 cb p) = False"
  "is_launch (Network_connect_cancel p) = False"
  "is_launch (Proto_handshake a i1 i2 i3 k cb p) = False"
  "is_launch (Proto_handshake_cancel p) = False"
  "is_launch (Proto_pipe a b i k sv cb p) = (sv = Stat_f)"
  "is_launch (Proto_pipe_cancel p) = False"
  "is_launch (Proto_crypt_free p) = False"
  "is_launch (Sock_addr_freelist p) = False"
  "is_launch (Callback_dead p why) = False"
  by (simp_all add: is_launch_def)

lemma launches_simps [simp]:
  "launches [] = 0"
  "launches (e # tr) = (if is_launch e then 1 else 0) + launches tr"
  by (simp_all add: launches_def)

lemma launches_append [simp]: "launches (xs @ ys) = launches xs + launches ys"
  by (simp add: launches_def)

lemma is_handshake_simps [simp]:
  "is_handshake (Malloc p) = False"
  "is_handshake Free = False"
  "is_handshake (Close a) = False"
  "is_handshake (Setsockopt a l opt v) = False"
  "is_handshake (Events_timer_register_double cb x p) = False"
  "is_handshake (Events_timer_cancel p) = False"
  "is_handshake (Network_connect_bind p1 p2 cb p) = False"
  "is_handshake (Network_connect_cancel p) = False"
  "is_handshake (Proto_handshake a i1 i2 i3 k cb p) = True"
  "is_handshake (Proto_handshake_cancel p) = False"
  "is_handshake (Proto_pipe a b i k sv cb p) = False"
  "is_handshake (Proto_pipe_cancel p) = False"
  "is_handshake (Proto_crypt_free p) = False"
  "is_handshake (Sock_addr_freelist p) = False"
  "is_handshake (Callback_dead p why) = False"
  by (simp_all add: is_handshake_def)

lemma is_dead_simps [simp]:
  "is_dead (Malloc p) = False"
  "is_dead Free = False"
  "is_dead (Close a) = False"
  "is_dead (Setsockopt a l opt v) = False"
  "is_dead (Events_timer_register_double cb x p) = False"
  "is_dead (Events_timer_cancel p) = False"
  "is_dead (Network_connect_bind p1 p2 cb p) = False"
  "is_dead (Network_connect_cancel p) = False"
  "is_dead (Proto_handshake a i1 i2 i3 k cb p) = False"
  "is_dead (Proto_handshake_cancel p) = False"
  "is_dead (Proto_pipe a b i k sv cb p) = False"
  "is_dead (Proto_pipe_cancel p) = False"
  "is_dead (Proto_crypt_free p) = False"
  "is_dead (Sock_addr_freelist p) = False"
  "is_dead (Callback_dead p why) = True"
  by (simp_all add: is_dead_def)

lemma is_crypt_free_simps [simp]:
  "is_crypt_free (Malloc p) = False"
  "is_crypt_free Free = False"
  "is_crypt_free (Close a) = False"
  "is_crypt_free (Setsockopt a l opt v) = False"
  "is_crypt_free (Events_timer_register_double cb x p) = False"
  "is_crypt_free (Events_timer_cancel p) = False"
  "is_crypt_free (Network_connect_bind p1 p2 cb p) = False"
  "is_crypt_free (Network_connect_cancel p) = False"
  "is_crypt_free (Proto_handshake a i1 i2 i3 k cb p) = False"
  "is_crypt_free (Proto_handshake_cancel p) = False"
  "is_crypt_free (Proto_pipe a b i k sv cb p) = False"
  "is_crypt_free (Proto_pipe_cancel p) = False"
  "is_crypt_free (Proto_crypt_free p) = True"
  "is_crypt_free (Sock_addr_freelist p) = False"
  "is_crypt_free (Callback_dead p why) = False"
  by (simp_all add: is_crypt_free_def)

lemma is_freelist_simps [simp]:
  "is_freelist (Malloc p) = False"
  "is_freelist Free = False"
  "is_freelist (Close a) = False"
  "is_freelist (Setsockopt a l opt v) = False"
  "is_freelist (Events_timer_register_double cb x p) = False"
  "is_freelist (Events_timer_cancel p) = False"
  "is_freelist (Network_connect_bind p1 p2 cb p) = False"
  "is_freelist (Network_connect_cancel p) = False"
  "is_freelist (Proto_handshake a i1 i2 i3 k cb p) = False"
  "is_freelist (Proto_handshake_cancel p) = False"
  "is_freelist (Proto_pipe a b i k sv cb p) = False"
  "is_freelist (Proto_pipe_cancel p) = False"
  "is_freelist (Proto_crypt_free p) = False"
  "is_freelist (Sock_addr_freelist p) = True"
  "is_freelist (Callback_dead p why) = False"
  by (simp_all add: is_freelist_def)

lemma refused_simps [simp]:
  "refused (Malloc p) = (p = None)"
  "refused Free = False"
  "refused (Events_timer_register_double cb x p) = (p = None)"
  "refused (Events_timer_cancel p) = False"
  "refused (Network_connect_bind p1 p2 cb p) = (p = None)"
  "refused (Network_connect_cancel p) = False"
  "refused (Proto_handshake a i1 i2 i3 k cb p) = (p = None)"
  by (simp_all add: refused_def)

subsection \<open>The calls of a drop\<close>

lemma drop_tr: "proto_conn_drop C why tr =
    (callback_dead C (cookie C) why,
     tr @ [Close (s C)]
        @ (if t C \<noteq> -1 then [Close (t C)] else [])
        @ opt_call (connect_cookie C) Network_connect_cancel
        @ [Sock_addr_freelist (sas C)]
        @ opt_call (handshake_cookie C) Proto_handshake_cancel
        @ opt_call (connect_timeout_cookie C) Events_timer_cancel
        @ opt_call (handshake_timeout_cookie C) Events_timer_cancel
        @ [Proto_crypt_free (k_f C), Proto_crypt_free (k_r C)]
        @ opt_call (pipe_f C) Proto_pipe_cancel
        @ opt_call (pipe_r C) Proto_pipe_cancel
        @ [Callback_dead (cookie C) why, Free])"
  by (simp add: proto_conn_drop_def emit_def opt_call_def Let_def split: option.splits)

lemma launches_opt_call [simp]:
  "launches (opt_call p Network_connect_cancel) = 0"
  "launches (opt_call p Proto_handshake_cancel) = 0"
  "launches (opt_call p Events_timer_cancel) = 0"
  "launches (opt_call p Proto_pipe_cancel) = 0"
  by (simp_all add: opt_call_def split: option.splits)

lemma filter_opt_call_handshake [simp]:
  "filter is_handshake (opt_call p Network_connect_cancel) = []"
  "filter is_handshake (opt_call p Proto_handshake_cancel) = []"
  "filter is_handshake (opt_call p Events_timer_cancel) = []"
  "filter is_handshake (opt_call p Proto_pipe_cancel) = []"
  by (simp_all add: opt_call_def split: option.splits)

lemma filter_opt_call_dead [simp]:
  "filter is_dead (opt_call p Network_connect_cancel) = []"
  "filter is_dead (opt_call p Proto_handshake_cancel) = []"
  "filter is_dead (opt_call p Events_timer_cancel) = []"
  "filter is_dead (opt_call p Proto_pipe_cancel) = []"
  by (simp_all add: opt_call_def split: option.splits)

lemma filter_opt_call_crypt_free [simp]:
  "filter is_crypt_free (opt_call p Network_connect_cancel) = []"
  "filter is_crypt_free (opt_call p Proto_handshake_cancel) = []"
  "filter is_crypt_free (opt_call p Events_timer_cancel) = []"
  "filter is_crypt_free (opt_call p Proto_pipe_cancel) = []"
  by (simp_all add: opt_call_def split: option.splits)

lemma filter_opt_call_freelist [simp]:
  "filter is_freelist (opt_call p Network_connect_cancel) = []"
  "filter is_freelist (opt_call p Proto_handshake_cancel) = []"
  "filter is_freelist (opt_call p Events_timer_cancel) = []"
  "filter is_freelist (opt_call p Proto_pipe_cancel) = []"
  by (simp_all add: opt_call_def split: option.splits)

lemma launches_drop [simp]: "launches (snd (proto_conn_drop C why tr)) = launches tr"
  by (simp add: drop_tr)

lemma handshake_drop [simp]:
  "filter is_handshake (snd (proto_conn_drop C why tr)) = filter is_handshake tr"
  by (simp add: drop_tr)

lemma launches_dropped: "dropped C why tr = (rc, c, tr') \<Longrightarrow> c = None \<and> launches tr' = launches tr"
  by (auto simp: dropped_def drop_tr split: prod.splits)

lemma launches_cb_err1: "cb_err1 C tr = (rc, c, tr') \<Longrightarrow> c = None \<and> launches tr' = launches tr"
  by (auto simp: cb_err1_def drop_tr split: prod.splits)

lemma handshake_dropped:
  "dropped C why tr = (rc, c, tr') \<Longrightarrow> c = None \<and> filter is_handshake tr' = filter is_handshake tr"
  by (auto simp: dropped_def drop_tr split: prod.splits)

lemma handshake_cb_err1:
  "cb_err1 C tr = (rc, c, tr') \<Longrightarrow> c = None \<and> filter is_handshake tr' = filter is_handshake tr"
  by (auto simp: cb_err1_def drop_tr split: prod.splits)

subsection \<open>Starting the handshake and the pipes\<close>

lemma starthandshake_frame:
  "starthandshake E C sock dec tr = (rc, C', tr') \<Longrightarrow>
     C' = C\<lparr>handshake_timeout_cookie := handshake_timeout_cookie C',
             handshake_cookie := handshake_cookie C'\<rparr> \<and>
     launches tr' = launches tr \<and>
     (rc = 0 \<longrightarrow> handshake_cookie C' \<noteq> None \<and> handshake_timeout_cookie C' \<noteq> None) \<and>
     (rc \<noteq> 0 \<longrightarrow> handshake_timeout_cookie C' = None)"
  by (auto simp: starthandshake_def acquire_def emit_def Let_def split: if_splits)

lemma starthandshake_handshake:
  "starthandshake E C sock dec tr = (rc, C', tr') \<Longrightarrow> decr C' = decr C"
  by (auto simp: starthandshake_def acquire_def emit_def Let_def split: if_splits)

lemma launchpipes_frame:
  "launchpipes E C tr = (rc, C', tr') \<Longrightarrow>
     C' = C\<lparr>pipe_f := pipe_f C', pipe_r := pipe_r C'\<rparr> \<and>
     launches tr' = Suc (launches tr) \<and>
     (rc = 0 \<longrightarrow> pipe_f C' \<noteq> None \<and> pipe_r C' \<noteq> None)"
  by (auto simp: launchpipes_def acquire_def emit_def Let_def split: if_splits)

lemma launchpipes_handshake:
  "launchpipes E C tr = (rc, C', tr') \<Longrightarrow>
     filter is_handshake tr' = filter is_handshake tr \<and> decr C' = decr C"
  by (auto simp: launchpipes_def acquire_def emit_def Let_def split: if_splits)

subsection \<open>The ways through \<^verbatim>\<open>proto_conn_create\<close>\<close>

lemma create_cases:
  assumes "proto_conn_create E a_s a_sas a_sa_b a_decr a_nopfs a_requirepfs a_nokeepalive a_K
             a_timeo a_cb a_cookie [] = (c, tr)"
  shows
   "(c = None \<and> tr = [Malloc None]) \<or>
    (\<exists>m. c = None \<and>
       tr = [Malloc (Some m), Events_timer_register_double CB_connect_timeout a_timeo None, Free]) \<or>
    (\<exists>m h1. c = None \<and>
       tr = [Malloc (Some m), Events_timer_register_double CB_connect_timeout a_timeo (Some h1),
             Network_connect_bind a_sas a_sa_b CB_connect_done None,
             Events_timer_cancel (Some h1), Free]) \<or>
    (\<exists>m h1 h2. c = None \<and> a_decr \<noteq> 0 \<and>
       tr = [Malloc (Some m), Events_timer_register_double CB_connect_timeout a_timeo (Some h1),
             Network_connect_bind a_sas a_sa_b CB_connect_done (Some h2),
             Events_timer_register_double CB_handshake_timeout a_timeo None,
             Network_connect_cancel (Some h2), Events_timer_cancel (Some h1), Free]) \<or>
    (\<exists>m h1 h2 h3. c = None \<and> a_decr \<noteq> 0 \<and>
       tr = [Malloc (Some m), Events_timer_register_double CB_connect_timeout a_timeo (Some h1),
             Network_connect_bind a_sas a_sa_b CB_connect_done (Some h2),
             Events_timer_register_double CB_handshake_timeout a_timeo (Some h3),
             Proto_handshake a_s a_decr a_nopfs a_requirepfs a_K CB_handshake_done None,
             Events_timer_cancel (Some h3),
             Network_connect_cancel (Some h2), Events_timer_cancel (Some h1), Free]) \<or>
    (\<exists>m h1 h2 h3 h4. a_decr \<noteq> 0 \<and>
       c = Some \<lparr>callback_dead = a_cb, cookie = a_cookie, sas = a_sas, decr = a_decr,
                 nopfs = a_nopfs, requirepfs = a_requirepfs, nokeepalive = a_nokeepalive,
                 K = a_K, timeo = a_timeo, s = a_s, t = -1,
                 connect_cookie = Some h2, connect_timeout_cookie = Some h1,
                 handshake_cookie = Some h4, handshake_timeout_cookie = Some h3,
                 k_f = None, k_r = None, pipe_f = None, pipe_r = None,
                 stat_f = 1, stat_r = 1\<rparr> \<and>
       tr = [Malloc (Some m), Events_timer_register_double CB_connect_timeout a_timeo (Some h1),
             Network_connect_bind a_sas a_sa_b CB_connect_done (Some h2),
             Events_timer_register_double CB_handshake_timeout a_timeo (Some h3),
             Proto_handshake a_s a_decr a_nopfs a_requirepfs a_K CB_handshake_done (Some h4)]) \<or>
    (\<exists>m h1 h2. a_decr = 0 \<and>
       c = Some \<lparr>callback_dead = a_cb, cookie = a_cookie, sas = a_sas, decr = a_decr,
                 nopfs = a_nopfs, requirepfs = a_requirepfs, nokeepalive = a_nokeepalive,
                 K = a_K, timeo = a_timeo, s = a_s, t = -1,
                 connect_cookie = Some h2, connect_timeout_cookie = Some h1,
                 handshake_cookie = None, handshake_timeout_cookie = None,
                 k_f = None, k_r = None, pipe_f = None, pipe_r = None,
                 stat_f = 1, stat_r = 1\<rparr> \<and>
       tr = [Malloc (Some m), Events_timer_register_double CB_connect_timeout a_timeo (Some h1),
             Network_connect_bind a_sas a_sa_b CB_connect_done (Some h2)])"
  using assms
  unfolding proto_conn_create_def starthandshake_def create_err1_def create_err2_def
    create_err3_def acquire_def emit_def Let_def
  by (auto split: if_splits)

lemma create_inv:
  "proto_conn_create E a_s a_sas a_sa_b a_decr a_nopfs a_requirepfs a_nokeepalive a_K a_timeo
      a_cb a_cookie [] = (Some C, tr) \<Longrightarrow> conn_inv (Some C, tr)"
  by (auto simp: proto_conn_create_def conn_inv_def acquire_def emit_def Let_def starthandshake_def
     create_err1_def create_err2_def create_err3_def split: if_splits prod.splits)

subsection \<open>The callbacks\<close>

lemma connect_done_inv:
  assumes "conn_inv (Some C, tr)" "connect_cookie C \<noteq> None"
    and "callback_connect_done E C a_t tr = (rc, c, tr')"
  shows "conn_inv (c, tr')"
  using assms
  apply (simp add: callback_connect_done_def Let_def emit_def split: if_splits prod.splits)
    apply (auto simp: conn_inv_def dest!: launches_dropped launches_cb_err1 starthandshake_frame launchpipes_frame)
  done

lemma handshake_done_inv:
  assumes "conn_inv (Some C, tr)" "handshake_cookie C \<noteq> None"
    and "callback_handshake_done E C f r tr = Inr (rc, c, tr')"
  shows "conn_inv (c, tr')"
  using assms
  apply (simp add: callback_handshake_done_def Let_def emit_def split: if_splits prod.splits)
    apply (auto simp: conn_inv_def dest!: launches_dropped launches_cb_err1 launchpipes_frame)
  done

lemma dropped_inv:
  "conn_inv (Some C, tr) \<Longrightarrow> launches tr0 = launches tr \<Longrightarrow> dropped C' why tr0 = (rc, c, tr') \<Longrightarrow> conn_inv (c, tr')"
  by (auto simp: conn_inv_def dest!: launches_dropped split: if_splits)

lemma pipestatus_inv:
  assumes "conn_inv (Some C, tr)"
    and "callback_pipestatus (C\<lparr>stat_f := v\<rparr>) tr = (rc, c, tr') \<or>
         callback_pipestatus (C\<lparr>stat_r := v\<rparr>) tr = (rc, c, tr')"
  shows "conn_inv (c, tr')"
  using assms
  by (auto simp: callback_pipestatus_def conn_inv_def dest!: launches_dropped split: if_splits)

lemma connect_done_launches:
  assumes "callback_connect_done E C a_t tr = (rc, c, tr')"
  shows "launches tr \<le> launches tr' \<and>
         launches tr' \<le> launches tr + (if launch_condition (C\<lparr>t := a_t\<rparr>) then 1 else 0) \<and>
         (decr C \<noteq> 0 \<or> c \<noteq> None \<longrightarrow>
            launches tr' = launches tr + (if launch_condition (C\<lparr>t := a_t\<rparr>) then 1 else 0))"
  using assms
  apply (simp add: callback_connect_done_def Let_def emit_def launch_condition_def
       split: if_splits prod.splits)
       apply (auto dest!: launches_dropped launches_cb_err1 starthandshake_frame launchpipes_frame)
  done

lemma handshake_done_launches:
  assumes "callback_handshake_done E C f r tr = Inr (rc, c, tr')"
  shows "launches tr' =
           launches tr + (if launch_condition (C\<lparr>k_f := f, k_r := r\<rparr>) then 1 else 0)"
  using assms
  apply (simp add: callback_handshake_done_def Let_def emit_def launch_condition_def
       split: if_splits prod.splits)
       apply (auto dest!: launches_dropped launches_cb_err1 launchpipes_frame)
  done

lemma connect_done_starts_handshake:
  assumes "decr C = 0" "a_t \<noteq> -1"
  shows "let tr1 = tr @ [Sock_addr_freelist (sas C), Events_timer_cancel (connect_timeout_cookie C)];
             tr2 = tr1 @ [Events_timer_register_double CB_handshake_timeout (timeo C) (E tr1)]
         in if E tr1 = None
            then filter is_handshake (snd (snd (callback_connect_done E C a_t tr))) =
                   filter is_handshake tr
            else (\<exists>rest. snd (snd (callback_connect_done E C a_t tr)) =
                    tr2 @ [Proto_handshake a_t 0 (nopfs C) (requirepfs C) (K C)
                             CB_handshake_done (E tr2)] @ rest \<and>
                    filter is_handshake rest = [])"
  using assms
  by (auto simp: callback_connect_done_def Let_def emit_def dropped_def cb_err1_def drop_tr
        starthandshake_def launchpipes_def acquire_def split: prod.splits if_splits)

lemma handshake_done_one_key:
  "(f = None) \<noteq> (r = None) \<Longrightarrow> callback_handshake_done E C f r tr = Inl Assertion_failed"
  by (auto simp: callback_handshake_done_def Let_def)

lemma handshake_done_no_keys:
  "\<exists>rc tr'. callback_handshake_done E C None None tr = Inr (rc, None, tr') \<and>
      filter is_dead tr' = filter is_dead tr @ [Callback_dead (cookie C) PROTO_CONN_HANDSHAKE_FAILED]"
  by (simp add: callback_handshake_done_def Let_def dropped_def drop_tr emit_def)

lemma handshake_done_two_keys:
  assumes "f \<noteq> None" "r \<noteq> None"
  shows "\<exists>rc c tr'. callback_handshake_done E C f r tr = Inr (rc, c, tr') \<and>
      (case c of
         Some C' \<Rightarrow> k_f C' = f \<and> k_r C' = r
       | None \<Rightarrow> filter is_crypt_free tr' =
                   filter is_crypt_free tr @ [Proto_crypt_free f, Proto_crypt_free r] \<and>
                 filter is_dead tr' =
                   filter is_dead tr @ [Callback_dead (cookie C) PROTO_CONN_ERROR])"
  using assms
  by (auto simp: callback_handshake_done_def Let_def emit_def cb_err1_def drop_tr
        launchpipes_def acquire_def split: prod.splits if_splits)

lemma handshake_done_failed:
  "callback_handshake_done E C None None tr =
     Inr (dropped (C\<lparr>handshake_cookie := None, handshake_timeout_cookie := None\<rparr>)
            PROTO_CONN_HANDSHAKE_FAILED
            (tr @ [Events_timer_cancel (handshake_timeout_cookie C)]))"
  by (simp add: callback_handshake_done_def Let_def emit_def)

lemma handshake_done_installs:
  assumes "f \<noteq> None" "r \<noteq> None"
  shows "callback_handshake_done E C f r tr =
     (let C2 = C\<lparr>handshake_cookie := None, handshake_timeout_cookie := None,
                    k_f := f, k_r := r\<rparr>;
          tr1 = tr @ [Events_timer_cancel (handshake_timeout_cookie C)]
      in if t C = -1 then Inr (0, Some C2, tr1)
         else (case launchpipes E C2 tr1 of
                 (rc, C3, tr3) \<Rightarrow>
                   if rc \<noteq> 0
                   then Inr (-1, None, snd (proto_conn_drop C3 PROTO_CONN_ERROR tr3))
                   else Inr (0, Some C3, tr3)))"
proof -
  from assms obtain x y where "f = Some x" "r = Some y"
    by auto
  then show ?thesis
    by (simp add: callback_handshake_done_def Let_def emit_def cb_err1_def split: prod.splits)
qed

lemma launchpipes_keys:
  "k_f (fst (snd (launchpipes E C tr))) = k_f C \<and> k_r (fst (snd (launchpipes E C tr))) = k_r C"
  by (simp add: launchpipes_def acquire_def emit_def Let_def)

subsection \<open>Turns and runs\<close>

lemma turn_inv: "conn_inv w \<Longrightarrow> turn E d w = Some w' \<Longrightarrow> conn_inv w'"
proof (induction E d w rule: turn.induct)
  case (1 E d tr)
  then show ?case by simp
next
  case (2 E a_t C tr)
  then show ?case
    by (auto split: if_splits prod.splits dest: connect_done_inv)
next
  case (3 E C tr)
  then show ?case
    by (auto simp: callback_connect_timeout_def split: if_splits prod.splits
        dest: dropped_inv [where tr0 = tr, rotated 2])
next
  case (4 E f r C tr)
  then show ?case
    by (auto split: if_splits prod.splits sum.splits dest: handshake_done_inv)
next
  case (5 E C tr)
  then show ?case
    by (auto simp: callback_handshake_timeout_def split: if_splits prod.splits
        dest: dropped_inv [where tr0 = tr, rotated 2])
next
  case (6 E v C tr)
  then show ?case
    by (auto split: if_splits prod.splits dest: pipestatus_inv)
next
  case (7 E v C tr)
  then show ?case
    by (auto split: if_splits prod.splits dest: pipestatus_inv)
next
  case (8 E why C tr)
  then show ?case
    by (auto simp: conn_inv_def drop_tr split: if_splits prod.splits)
qed

lemma run_inv: "conn_inv w \<Longrightarrow> run E ds w = Some w' \<Longrightarrow> conn_inv w'"
  by (induction ds arbitrary: w) (auto split: option.splits dest: turn_inv)

text \<open>Only a successful dial makes a turn start a handshake; no turn changes \<open>decr\<close>.\<close>

lemma turn_handshake:
  assumes "turn E d (Some C, tr) = Some (c, tr')"
  shows "(\<not> is_dialed d \<longrightarrow> filter is_handshake tr' = filter is_handshake tr) \<and>
         (\<forall>C'. c = Some C' \<longrightarrow> decr C' = decr C)"
proof (cases d)
  case (Connect_done a_t)
  with assms show ?thesis
    by (auto simp: is_dialed_def callback_connect_done_def Let_def emit_def
        split: if_splits prod.splits
        dest!: handshake_dropped handshake_cb_err1 launchpipes_handshake starthandshake_handshake)
next
  case Connect_timeout
  with assms show ?thesis
    by (auto simp: is_dialed_def callback_connect_timeout_def split: if_splits prod.splits
        dest!: handshake_dropped)
next
  case (Handshake_done f r)
  with assms show ?thesis
    by (auto simp: is_dialed_def callback_handshake_done_def Let_def emit_def
        split: if_splits prod.splits sum.splits
        dest!: handshake_dropped handshake_cb_err1 launchpipes_handshake)
next
  case Handshake_timeout
  with assms show ?thesis
    by (auto simp: is_dialed_def callback_handshake_timeout_def split: if_splits prod.splits
        dest!: handshake_dropped)
next
  case (Pipestatus sv v)
  with assms show ?thesis
    by (cases sv)
      (auto simp: is_dialed_def callback_pipestatus_def split: if_splits prod.splits
        dest!: handshake_dropped)
next
  case (Drop why)
  with assms show ?thesis
    by (auto simp: is_dialed_def drop_tr split: prod.splits)
qed

lemma run_handshake:
  assumes "run E ds (c0, tr0) = Some (c, tr)" "\<not> list_ex is_dialed ds"
  shows "filter is_handshake tr = filter is_handshake tr0"
  using assms
proof (induction ds arbitrary: c0 tr0)
  case Nil
  then show ?case by simp
next
  case (Cons d ds)
  show ?case
  proof (cases c0)
    case None
    with Cons.prems show ?thesis by simp
  next
    case (Some C)
    with Cons.prems obtain c1 tr1 where 1: "turn E d (Some C, tr0) = Some (c1, tr1)"
      and 2: "run E ds (c1, tr1) = Some (c, tr)"
      by (auto split: option.splits)
    from Cons.prems have nd: "\<not> is_dialed d" "\<not> list_ex is_dialed ds" by simp_all
    from turn_handshake [OF 1] nd have "filter is_handshake tr1 = filter is_handshake tr0" by simp
    with Cons.IH [OF 2 nd(2)] show ?thesis by simp
  qed
qed

subsection \<open>Unfolding the engine on concrete inputs\<close>

lemmas engine_defs =
  proto_conn_create_def starthandshake_def launchpipes_def proto_conn_drop_def
  callback_connect_done_def callback_connect_timeout_def callback_handshake_done_def
  callback_handshake_timeout_def callback_pipestatus_def dropped_def cb_err1_def
  create_err1_def create_err2_def create_err3_def acquire_def emit_def Let_def

section \<open>Lemmas on the address codec\<close>

subsection \<open>Bytes of an integer\<close>

lemma length_to_bytes [simp]: "length (to_bytes bo w) = 4"
  by (simp add: to_bytes_def le_bytes_def split: byte_order.splits)

lemma le_word_bytes: "le_word (le_bytes w) = w"
  unfolding le_bytes_def
  apply simp
  apply (rule bit_word_eqI)
  apply (auto simp: bit_simps)
  subgoal for n by (cases "24 \<le> n") auto
  done

lemma of_to_bytes [simp]: "of_bytes bo (to_bytes bo w) = w"
  by (cases bo) (simp_all add: of_bytes_def to_bytes_def le_word_bytes)

subsection \<open>Serializing and deserializing\<close>

lemma serialize_Inr:
  "m 0 \<Longrightarrow> unat (namelen sa) \<le> length (name sa) \<Longrightarrow>
   sock_addr_serialize bo m sa =
     Inr (to_bytes bo (ai_family sa) @ to_bytes bo (ai_socktype sa) @
          to_bytes bo (namelen sa) @ take (unat (namelen sa)) (name sa),
          header_size + unat (namelen sa))"
  by (simp add: sock_addr_serialize_def header_size_def)

lemma declared_namelen_eq:
  "unat (of_bytes bo (take 4 (drop 8 buf))) = declared_namelen bo buf"
  by (simp add: declared_namelen_def sizeof_int_def sizeof_socklen_t_def)

lemma header_size_eq: "header_size = 12"
  by (simp add: header_size_def sizeof_int_def sizeof_socklen_t_def)

lemma deserialize_flat:
  "sock_addr_deserialize bo m buf =
    (if length buf < header_size then None
     else if \<not> m 0 then None
     else if length buf \<noteq> header_size + declared_namelen bo buf then None
     else if \<not> m 1 then None
     else Some \<lparr>ai_family = of_bytes bo (take 4 buf),
                 ai_socktype = of_bytes bo (take 4 (drop 4 buf)),
                 name = take (declared_namelen bo buf) (drop header_size buf),
                 namelen = of_bytes bo (take 4 (drop 8 buf))\<rparr>)"
  by (simp add: sock_addr_deserialize_def header_size_def declared_namelen_def sizeof_int_def
      sizeof_socklen_t_def Let_def split del: if_split cong del: if_weak_cong)

lemma deserialize_short: "length buf < header_size \<Longrightarrow> sock_addr_deserialize bo m buf = None"
  by (simp add: deserialize_flat)

lemma deserialize_mismatch:
  "length buf \<noteq> header_size + declared_namelen bo buf \<Longrightarrow> sock_addr_deserialize bo m buf = None"
  by (simp add: deserialize_flat)

lemma deserialize_Some:
  assumes "sock_addr_deserialize bo m buf = Some sa"
  shows "header_size \<le> length buf \<and> unat (namelen sa) = declared_namelen bo buf \<and>
      length buf = header_size + unat (namelen sa) \<and> name sa = drop header_size buf \<and> m 0 \<and> m 1"
proof -
  from assms have 1: "header_size \<le> length buf" and 2: "length buf = header_size + declared_namelen bo buf"
    and 3: "m 0" "m 1"
    and sa: "sa = \<lparr>ai_family = of_bytes bo (take 4 buf),
                 ai_socktype = of_bytes bo (take 4 (drop 4 buf)),
                 name = take (declared_namelen bo buf) (drop header_size buf),
                 namelen = of_bytes bo (take 4 (drop 8 buf))\<rparr>"
    by (auto simp: deserialize_flat split: if_splits)
  from sa have n: "unat (namelen sa) = declared_namelen bo buf"
    by (simp add: declared_namelen_eq)
  from sa 2 have "name sa = drop header_size buf"
    by simp
  with 1 2 3 n show ?thesis by simp
qed

lemma deserialize_serialized:
  assumes "m 0" "m 1"
  shows "sock_addr_deserialize bo m (to_bytes bo f @ to_bytes bo st @ to_bytes bo n @ bs) =
     (if length bs = unat n then Some \<lparr>ai_family = f, ai_socktype = st, name = bs, namelen = n\<rparr> else None)"
  using assms
  by (simp add: sock_addr_deserialize_def Let_def sizeof_int_def sizeof_socklen_t_def)

subsection \<open>Searching a string\<close>

lemma strchr_None: "(strchr str c = None) = (c \<notin> set str)"
  by (induction str) auto

lemma strrchr_None: "(strrchr str c = None) = (c \<notin> set str)"
  by (induction str) (auto split: option.splits)

lemma strchr_less: "strchr str c = Some i \<Longrightarrow> i < length str"
  by (induction str arbitrary: i) (auto split: if_splits)

lemma strchr_append:
  "strchr (xs @ ys) c =
     (case strchr xs c of Some i \<Rightarrow> Some i
      | None \<Rightarrow> (case strchr ys c of Some i \<Rightarrow> Some (length xs + i) | None \<Rightarrow> None))"
  by (induction xs) (auto split: option.splits)

lemma strrchr_append:
  "strrchr (xs @ ys) c =
     (case strrchr ys c of Some i \<Rightarrow> Some (length xs + i) | None \<Rightarrow> strrchr xs c)"
  by (induction xs) (auto split: option.splits)

subsection \<open>\<^verbatim>\<open>sock_addr_ensure_port\<close>\<close>

lemma ensure_port_idem:
  assumes "sock_addr_ensure_port m x = Some y"
  shows "sock_addr_ensure_port m' y = (if m' 0 then Some y else None)"
proof (cases "\<exists>rest. x = CHR ''/'' # rest")
  case True
  with assms show ?thesis
    by (auto simp: sock_addr_ensure_port_def strdup_def split: if_splits)
next
  case noslash: False
  show ?thesis
  proof (cases "strchr x CHR '':''")
    case None
    then have nc: "CHR '':'' \<notin> set x" by (simp add: strchr_None)
    with assms noslash None have y: "y = x @ '':0''"
      by (auto simp: sock_addr_ensure_port_def strdup_def asprintf_def split: if_splits list.splits)
    from nc have rn: "strrchr x CHR '':'' = None" by (simp add: strrchr_None)
    from noslash have ns: "\<not> (case x @ '':0'' of [] \<Rightarrow> False | ch # rest \<Rightarrow> ch = CHR ''/'')"
      by (cases x) auto
    from None rn ns show ?thesis unfolding y
      by (simp add: sock_addr_ensure_port_def strdup_def asprintf_def strchr_append strrchr_append
        split: option.splits)
  next
    case (Some i)
    then have il: "i < length x" by (rule strchr_less)
    show ?thesis
    proof (cases "strrchr x CHR '':'' = Some i")
      case True
      with assms noslash Some have y: "y = x"
        by (auto simp: sock_addr_ensure_port_def strdup_def asprintf_def split: if_splits list.splits)
      from noslash Some True show ?thesis unfolding y
        by (auto simp: sock_addr_ensure_port_def strdup_def asprintf_def split: if_splits list.splits)
    next
      case ne: False
      show ?thesis
      proof (cases "strrchr x CHR '']''")
        case None
        with ne Some noslash assms have y: "y = ''['' @ x @ '']:0''"
          by (auto simp: sock_addr_ensure_port_def strdup_def asprintf_def split: if_splits list.splits)
        from None have nb: "CHR '']'' \<notin> set x" by (simp add: strrchr_None)
        from Some il nb show ?thesis unfolding y
          by (simp add: sock_addr_ensure_port_def strdup_def asprintf_def strchr_append strrchr_append
              split: option.splits)
      next
        case (Some k)
        note k = this
        show ?thesis
        proof (cases "Suc k = length x")
          case True
          with k ne \<open>strchr x CHR '':'' = Some i\<close> noslash assms have y: "y = x @ '':0''"
            by (auto simp: sock_addr_ensure_port_def strdup_def asprintf_def split: if_splits list.splits)
          from noslash have ns: "\<not> (case x @ '':0'' of [] \<Rightarrow> False | ch # rest \<Rightarrow> ch = CHR ''/'')"
            by (cases x) auto
          from \<open>strchr x CHR '':'' = Some i\<close> il k True ns show ?thesis unfolding y
            by (simp add: sock_addr_ensure_port_def strdup_def asprintf_def strchr_append strrchr_append
              split: option.splits)
        next
          case False
          with k ne \<open>strchr x CHR '':'' = Some i\<close> noslash assms have y: "y = x"
            by (auto simp: sock_addr_ensure_port_def strdup_def asprintf_def split: if_splits list.splits)
          from k ne \<open>strchr x CHR '':'' = Some i\<close> noslash False show ?thesis unfolding y
            by (auto simp: sock_addr_ensure_port_def strdup_def asprintf_def split: if_splits list.splits)
        qed
      qed
    qed
  qed
qed

lemma ensure_port_unix: "sock_addr_ensure_port m (CHR ''/'' # p) = (if m 0 then Some (CHR ''/'' # p) else None)"
  by (simp add: sock_addr_ensure_port_def strdup_def)

lemma ensure_port_ipv4:
  assumes "CHR '':'' \<notin> set host" "CHR '':'' \<notin> set p"
  shows "sock_addr_ensure_port m (host @ '':'' @ p) = (if m 0 then Some (host @ '':'' @ p) else None)"
proof -
  from assms have "strchr host CHR '':'' = None" "strrchr host CHR '':'' = None"
    "strchr p CHR '':'' = None" "strrchr p CHR '':'' = None"
    by (simp_all add: strchr_None strrchr_None)
  then have "strchr (host @ CHR '':'' # p) CHR '':'' = Some (length host)"
    "strrchr (host @ CHR '':'' # p) CHR '':'' = Some (length host)"
    by (simp_all add: strchr_append strrchr_append)
  then show ?thesis
    by (simp add: sock_addr_ensure_port_def strdup_def Let_def)
qed

lemma ensure_port_ipv6:
  assumes "CHR '']'' \<notin> set p"
  shows "sock_addr_ensure_port m (''['' @ h @ '']:'' @ p) = (if m 0 then Some (''['' @ h @ '']:'' @ p) else None)"
proof -
  let ?x = "CHR ''['' # h @ CHR '']'' # CHR '':'' # p"
  from assms have "strrchr p CHR '']'' = None" by (simp add: strrchr_None)
  then have c: "strrchr ?x CHR '']'' = Some (Suc (length h))"
    using strrchr_append [of "CHR ''['' # h" "CHR '']'' # CHR '':'' # p" "CHR '']''"]
    by (simp split: option.splits)
  have len: "Suc (Suc (length h)) \<noteq> length ?x" by simp
  have a: "strchr ?x CHR '':'' \<noteq> None" by (simp add: strchr_None)
  show ?thesis
    using c len a
    by (simp add: sock_addr_ensure_port_def strdup_def split: option.splits)
qed

section \<open>The claims\<close>

text \<open>
  Claim C1. \<^verbatim>\<open>proto_conn_drop\<close> on a connection state makes exactly these calls, in this
  order: it closes \<open>s\<close>; closes \<open>t\<close> iff \<open>t\<close> is not \<open>-1\<close>; cancels the dial iff its
  cookie is non-null; releases the address list; cancels the handshake iff its cookie is
  non-null; cancels the dial timer and then the handshake timer, each iff its cookie is
  non-null; frees both keys; cancels each pipe iff its handle is non-null; calls the
  death callback once with the given reason; frees the state. It returns what the death
  callback returned.
\<close>

theorem proto_conn_drop_order:
  "proto_conn_drop C why tr =
     (callback_dead C (cookie C) why,
      tr @ [Close (s C)]
         @ (if t C \<noteq> -1 then [Close (t C)] else [])
         @ opt_call (connect_cookie C) Network_connect_cancel
         @ [Sock_addr_freelist (sas C)]
         @ opt_call (handshake_cookie C) Proto_handshake_cancel
         @ opt_call (connect_timeout_cookie C) Events_timer_cancel
         @ opt_call (handshake_timeout_cookie C) Events_timer_cancel
         @ [Proto_crypt_free (k_f C), Proto_crypt_free (k_r C)]
         @ opt_call (pipe_f C) Proto_pipe_cancel
         @ opt_call (pipe_r C) Proto_pipe_cancel
         @ [Callback_dead (cookie C) why, Free]) \<and>
   filter is_dead (snd (proto_conn_drop C why tr)) =
     filter is_dead tr @ [Callback_dead (cookie C) why]"
  by (simp add: drop_tr opt_call_def is_dead_def split: option.splits)

text \<open>
  Claim C2. Take any connection that \<^verbatim>\<open>proto_conn_create\<close> returned and any sequence of
  turns of the event loop on it, under any environment. The pipes are launched at most
  once (\<^verbatim>\<open>launchpipes\<close> creates the forward pipe at most once). While the state is
  allocated, \<open>pipe_f\<close> is non-null iff \<open>pipe_r\<close> is, and iff the dial has given a socket
  and both keys are there (\<open>t\<close> is not \<open>-1\<close>, \<open>k_f\<close> and \<open>k_r\<close> are non-null); the
  pipes have been launched exactly then. Both completion callbacks launch under this
  one condition, read after the callback has stored what it was given: the handshake
  callback launches iff the condition holds with the two keys stored; the dial callback
  launches only if it holds with \<open>t\<close> stored, and then it does launch on the
  decrypting side, and on either side whenever it leaves the state allocated (on the
  encrypting side it first starts the handshake, and drops the connection without
  reaching the test if that fails).
\<close>

theorem pipes_launched_once:
  "(\<forall>C0 tr0 c tr.
      proto_conn_create E a_s a_sas a_sa_b a_decr a_nopfs a_requirepfs a_nokeepalive a_K
        a_timeo a_cb a_cookie [] = (Some C0, tr0) \<and>
      run E ds (Some C0, tr0) = Some (c, tr) \<longrightarrow>
        launches tr \<le> 1 \<and>
        (\<forall>C. c = Some C \<longrightarrow>
           ((pipe_f C \<noteq> None) = (pipe_r C \<noteq> None)) \<and>
           ((pipe_f C \<noteq> None) = launch_condition C) \<and>
           launches tr = (if launch_condition C then 1 else 0))) \<and>
   (\<forall>rc c tr'. callback_connect_done E C a_t tr = (rc, c, tr') \<longrightarrow>
      launches tr \<le> launches tr' \<and>
      launches tr' \<le> launches tr + (if launch_condition (C\<lparr>t := a_t\<rparr>) then 1 else 0) \<and>
      (decr C \<noteq> 0 \<or> c \<noteq> None \<longrightarrow>
         launches tr' = launches tr + (if launch_condition (C\<lparr>t := a_t\<rparr>) then 1 else 0))) \<and>
   (\<forall>rc c tr'. callback_handshake_done E C f r tr = Inr (rc, c, tr') \<longrightarrow>
      launches tr' =
        launches tr + (if launch_condition (C\<lparr>k_f := f, k_r := r\<rparr>) then 1 else 0))"
proof -
  have "launches tr \<le> 1 \<and>
        (\<forall>C. c = Some C \<longrightarrow>
           ((pipe_f C \<noteq> None) = (pipe_r C \<noteq> None)) \<and>
           ((pipe_f C \<noteq> None) = launch_condition C) \<and>
           launches tr = (if launch_condition C then 1 else 0))"
    if c: "proto_conn_create E a_s a_sas a_sa_b a_decr a_nopfs a_requirepfs a_nokeepalive a_K
        a_timeo a_cb a_cookie [] = (Some C0, tr0)"
      and r: "run E ds (Some C0, tr0) = Some (c, tr)" for C0 tr0 c tr
  proof -
    have "conn_inv (c, tr)"
      using run_inv [OF create_inv [OF c] r] .
    then show ?thesis
      by (cases c) (auto simp: conn_inv_def launch_condition_def split: if_splits)
  qed
  then show ?thesis
    using connect_done_launches [of E C a_t tr] handshake_done_launches [of E C f r tr]
    by blast
qed

text \<open>
  The claim on a decrypting connection whose handshake completes before its dial, on an
  encrypting one where the dial completes first, and at each of the two callbacks on a
  state where the other completion has already happened.
\<close>

theorem pipes_launched_once_witness:
  "(\<exists>C0 tr0 C tr.
      proto_conn_create env_ok 5 (Some 10) None 1 0 0 0 (Some 11) 5 (\<lambda>c why. 0) (Some 12) [] =
        (Some C0, tr0) \<and>
      run env_ok [Handshake_done (Some 100) (Some 101), Connect_done 7] (Some C0, tr0) =
        Some (Some C, tr) \<and>
      launches tr = 1 \<and> launches tr \<le> 1 \<and> launch_condition C \<and>
      pipe_f C \<noteq> None \<and> pipe_r C \<noteq> None) \<and>
   (\<exists>C' tr'.
      run env_ok [Connect_done 9, Handshake_done (Some 100) (Some 101)]
        (Some dialing_state,
         [Malloc (Some 0), Events_timer_register_double CB_connect_timeout 5 (Some 1),
          Network_connect_bind (Some 10) None CB_connect_done (Some 2)]) =
        Some (Some C', tr') \<and>
      launches tr' = 1 \<and> launch_condition C') \<and>
   launches (snd (snd (callback_connect_done env_ok
      (dialing_state\<lparr>decr := 1, k_f := Some 100, k_r := Some 101\<rparr>) 7 []))) = 1 \<and>
   (\<exists>rc c tr'.
      callback_handshake_done env_ok
        (dialing_state\<lparr>t := 7, handshake_cookie := Some 4\<rparr>) (Some 100) (Some 101) [] =
        Inr (rc, c, tr') \<and>
      launches tr' = 1)"
proof -
  note T = pipes_launched_once [where E = env_ok and a_s = 5 and a_sas = "Some 10"
      and a_sa_b = None and a_decr = 1 and a_nopfs = 0 and a_requirepfs = 0
      and a_nokeepalive = 0 and a_K = "Some 11" and a_timeo = 5 and a_cb = "\<lambda>c why. 0"
      and a_cookie = "Some 12"
      and ds = "[Handshake_done (Some 100) (Some 101), Connect_done 7]"
      and C = "dialing_state\<lparr>decr := 1, k_f := Some 100, k_r := Some 101\<rparr>" and a_t = 7
      and tr = "[]"]
  note T' = pipes_launched_once [where E = env_ok and a_s = 5 and a_sas = "Some 10"
      and a_sa_b = None and a_decr = 1 and a_nopfs = 0 and a_requirepfs = 0
      and a_nokeepalive = 0 and a_K = "Some 11" and a_timeo = 5 and a_cb = "\<lambda>c why. 0"
      and a_cookie = "Some 12"
      and ds = "[Handshake_done (Some 100) (Some 101), Connect_done 7]"
      and C = "dialing_state\<lparr>t := 7, handshake_cookie := Some 4\<rparr>"
      and f = "Some 100" and r = "Some 101" and tr = "[]"]
  have other: "\<exists>C' tr'.
        run env_ok [Connect_done 9, Handshake_done (Some 100) (Some 101)]
          (Some dialing_state,
           [Malloc (Some 0), Events_timer_register_double CB_connect_timeout 5 (Some 1),
            Network_connect_bind (Some 10) None CB_connect_done (Some 2)]) =
          Some (Some C', tr') \<and>
        launches tr' = 1 \<and> launch_condition C'"
    by (simp add: engine_defs env_ok_def dialing_state_def launch_condition_def)
  obtain C0 tr0 C tr where
    c: "proto_conn_create env_ok 5 (Some 10) None 1 0 0 0 (Some 11) 5 (\<lambda>c why. 0) (Some 12) [] =
       (Some C0, tr0)"
    and r: "run env_ok [Handshake_done (Some 100) (Some 101), Connect_done 7] (Some C0, tr0) =
       Some (Some C, tr)"
    and l: "launch_condition C"
  proof -
    have "\<exists>C0 tr0 C tr.
      proto_conn_create env_ok 5 (Some 10) None 1 0 0 0 (Some 11) 5 (\<lambda>c why. 0) (Some 12) [] =
        (Some C0, tr0) \<and>
      run env_ok [Handshake_done (Some 100) (Some 101), Connect_done 7] (Some C0, tr0) =
        Some (Some C, tr) \<and> launch_condition C"
      by (simp add: engine_defs env_ok_def launch_condition_def)
    then show ?thesis using that by blast
  qed
  from c r T
  have "launches tr \<le> 1 \<and>
        (\<forall>C'. Some C = Some C' \<longrightarrow>
           ((pipe_f C' \<noteq> None) = (pipe_r C' \<noteq> None)) \<and>
           ((pipe_f C' \<noteq> None) = launch_condition C') \<and>
           launches tr = (if launch_condition C' then 1 else 0))"
    by blast
  with l have "launches tr = 1 \<and> launches tr \<le> 1 \<and> pipe_f C \<noteq> None \<and> pipe_r C \<noteq> None"
    by auto
  with c r l have first: "\<exists>C0 tr0 C tr.
      proto_conn_create env_ok 5 (Some 10) None 1 0 0 0 (Some 11) 5 (\<lambda>c why. 0) (Some 12) [] =
        (Some C0, tr0) \<and>
      run env_ok [Handshake_done (Some 100) (Some 101), Connect_done 7] (Some C0, tr0) =
        Some (Some C, tr) \<and>
      launches tr = 1 \<and> launches tr \<le> 1 \<and> launch_condition C \<and>
      pipe_f C \<noteq> None \<and> pipe_r C \<noteq> None"
    by blast
  let ?Ck = "dialing_state\<lparr>decr := 1, k_f := Some 100, k_r := Some 101\<rparr>"
  have k: "decr ?Ck \<noteq> 0" "launch_condition (?Ck\<lparr>t := 7\<rparr>)"
    by (simp_all add: launch_condition_def)
  obtain rc c tr' where cd: "callback_connect_done env_ok ?Ck 7 [] = (rc, c, tr')"
    by (cases "callback_connect_done env_ok ?Ck 7 []") 
  with T k have "launches tr' = launches [] + (if launch_condition (?Ck\<lparr>t := 7\<rparr>) then 1 else 0)"
    by blast
  with k cd have second: "launches (snd (snd (callback_connect_done env_ok ?Ck 7 []))) = 1"
    by simp
  let ?Ch = "dialing_state\<lparr>t := 7, handshake_cookie := Some 4\<rparr>"
  have h: "launch_condition (?Ch\<lparr>k_f := Some 100, k_r := Some 101\<rparr>)"
    by (simp add: launch_condition_def)
  obtain rc' c' tr'' where hd: "callback_handshake_done env_ok ?Ch (Some 100) (Some 101) [] =
      Inr (rc', c', tr'')"
  proof -
    have "\<exists>rc c tr'. callback_handshake_done env_ok ?Ch (Some 100) (Some 101) [] =
        Inr (rc, c, tr')"
      by (simp add: engine_defs env_ok_def dialing_state_def)
    then show ?thesis using that by blast
  qed
  with T' have "launches tr'' = launches [] +
      (if launch_condition (?Ch\<lparr>k_f := Some 100, k_r := Some 101\<rparr>) then 1 else 0)"
    by blast
  with h hd have third: "\<exists>rc c tr'.
      callback_handshake_done env_ok ?Ch (Some 100) (Some 101) [] = Inr (rc, c, tr') \<and>
      launches tr' = 1"
    by simp
  from first other second third show ?thesis by blast
qed

text \<open>
  Claim C3. If \<open>decr\<close> is non-zero and \<^verbatim>\<open>proto_conn_create\<close> returns a connection, it has
  started the handshake on \<open>s\<close> before returning, right after starting the dial, and
  both are in flight. If \<open>decr\<close> is zero, no handshake is started by
  \<^verbatim>\<open>proto_conn_create\<close> nor by any sequence of turns without a successful dial; the dial
  callback called with a socket \<open>t\<close> registers the handshake timer and, unless that
  was refused, starts the handshake on \<open>t\<close>.
\<close>

theorem handshake_start_timing:
  "(\<forall>C tr.
      a_decr \<noteq> 0 \<and>
      proto_conn_create E a_s a_sas a_sa_b a_decr a_nopfs a_requirepfs a_nokeepalive a_K
        a_timeo a_cb a_cookie [] = (Some C, tr) \<longrightarrow>
      (\<exists>m h1 h2 h3 h4.
         tr = [Malloc (Some m), Events_timer_register_double CB_connect_timeout a_timeo (Some h1),
               Network_connect_bind a_sas a_sa_b CB_connect_done (Some h2),
               Events_timer_register_double CB_handshake_timeout a_timeo (Some h3),
               Proto_handshake a_s a_decr a_nopfs a_requirepfs a_K CB_handshake_done (Some h4)] \<and>
         connect_cookie C = Some h2 \<and> handshake_cookie C = Some h4 \<and> t C = -1)) \<and>
   (\<forall>C0 tr0 c tr.
      a_decr = 0 \<and>
      proto_conn_create E a_s a_sas a_sa_b a_decr a_nopfs a_requirepfs a_nokeepalive a_K
        a_timeo a_cb a_cookie [] = (Some C0, tr0) \<and>
      run E ds (Some C0, tr0) = Some (c, tr) \<and> \<not> list_ex is_dialed ds \<longrightarrow>
      filter is_handshake tr = []) \<and>
   (decr C = 0 \<and> a_t \<noteq> -1 \<longrightarrow>
      (let tr1 = tr @ [Sock_addr_freelist (sas C), Events_timer_cancel (connect_timeout_cookie C)];
           tr2 = tr1 @ [Events_timer_register_double CB_handshake_timeout (timeo C) (E tr1)]
       in if E tr1 = None
          then filter is_handshake (snd (snd (callback_connect_done E C a_t tr))) =
                 filter is_handshake tr
          else (\<exists>rest. snd (snd (callback_connect_done E C a_t tr)) =
                  tr2 @ [Proto_handshake a_t 0 (nopfs C) (requirepfs C) (K C)
                           CB_handshake_done (E tr2)] @ rest \<and>
                  filter is_handshake rest = [])))"
proof -
  have a: "\<exists>m h1 h2 h3 h4.
         tr = [Malloc (Some m), Events_timer_register_double CB_connect_timeout a_timeo (Some h1),
               Network_connect_bind a_sas a_sa_b CB_connect_done (Some h2),
               Events_timer_register_double CB_handshake_timeout a_timeo (Some h3),
               Proto_handshake a_s a_decr a_nopfs a_requirepfs a_K CB_handshake_done (Some h4)] \<and>
         connect_cookie C = Some h2 \<and> handshake_cookie C = Some h4 \<and> t C = -1"
    if "a_decr \<noteq> 0" and c: "proto_conn_create E a_s a_sas a_sa_b a_decr a_nopfs a_requirepfs
        a_nokeepalive a_K a_timeo a_cb a_cookie [] = (Some C, tr)" for C tr
    using create_cases [OF c] that(1) by (elim disjE exE conjE) simp_all
  have b: "filter is_handshake tr = []"
    if "a_decr = 0" and c: "proto_conn_create E a_s a_sas a_sa_b a_decr a_nopfs a_requirepfs
        a_nokeepalive a_K a_timeo a_cb a_cookie [] = (Some C0, tr0)"
      and r: "run E ds (Some C0, tr0) = Some (c, tr)" and n: "\<not> list_ex is_dialed ds"
    for C0 tr0 c tr
  proof -
    have "filter is_handshake tr0 = []"
      using create_cases [OF c] that(1) by (elim disjE exE conjE) simp_all
    with run_handshake [OF r n] show ?thesis by simp
  qed
  from a b connect_done_starts_handshake [of C a_t tr E] show ?thesis
    by blast
qed

text \<open>
  The claim at a decrypting connection, at a failed dial of an encrypting one, and at a
  dial of the encrypting one that gives socket 9.
\<close>

theorem handshake_start_timing_witness:
  "(\<exists>C. proto_conn_create env_ok 5 (Some 10) None 1 0 0 0 (Some 11) 5 (\<lambda>c why. 0) (Some 12) [] =
      (Some C,
       [Malloc (Some 0), Events_timer_register_double CB_connect_timeout 5 (Some 1),
        Network_connect_bind (Some 10) None CB_connect_done (Some 2),
        Events_timer_register_double CB_handshake_timeout 5 (Some 3),
        Proto_handshake 5 1 0 0 (Some 11) CB_handshake_done (Some 4)]) \<and>
      connect_cookie C = Some 2 \<and> handshake_cookie C = Some 4 \<and> t C = -1) \<and>
   (\<exists>tr. run env_ok [Connect_done (-1)]
      (Some dialing_state,
       [Malloc (Some 0), Events_timer_register_double CB_connect_timeout 5 (Some 1),
        Network_connect_bind (Some 10) None CB_connect_done (Some 2)]) = Some (None, tr) \<and>
      filter is_handshake tr = []) \<and>
   (\<exists>rest. snd (snd (callback_connect_done env_ok dialing_state 9 [])) =
      [Sock_addr_freelist (Some 10), Events_timer_cancel (Some 1),
       Events_timer_register_double CB_handshake_timeout 5 (Some 2),
       Proto_handshake 9 0 0 0 (Some 11) CB_handshake_done (Some 3)] @ rest \<and>
      filter is_handshake rest = [])"
proof -
  let ?tr0 = "[Malloc (Some 0), Events_timer_register_double CB_connect_timeout 5 (Some 1),
        Network_connect_bind (Some 10) None CB_connect_done (Some 2)]"
  let ?tr1 = "[Malloc (Some 0), Events_timer_register_double CB_connect_timeout 5 (Some 1),
        Network_connect_bind (Some 10) None CB_connect_done (Some 2),
        Events_timer_register_double CB_handshake_timeout 5 (Some 3),
        Proto_handshake 5 1 0 0 (Some 11) CB_handshake_done (Some 4)]"
  note T1 = handshake_start_timing [where E = env_ok and a_s = 5 and a_sas = "Some 10"
      and a_sa_b = None and a_decr = 1 and a_nopfs = 0 and a_requirepfs = 0
      and a_nokeepalive = 0 and a_K = "Some 11" and a_timeo = 5 and a_cb = "\<lambda>c why. 0"
      and a_cookie = "Some 12" and ds = "[]" and C = dialing_state and a_t = 9 and tr = "[]"]
  note T0 = handshake_start_timing [where E = env_ok and a_s = 5 and a_sas = "Some 10"
      and a_sa_b = None and a_decr = 0 and a_nopfs = 0 and a_requirepfs = 0
      and a_nokeepalive = 0 and a_K = "Some 11" and a_timeo = 5 and a_cb = "\<lambda>c why. 0"
      and a_cookie = "Some 12" and ds = "[Connect_done (-1)]" and C = dialing_state and a_t = 9
      and tr = "[]"]
  obtain C1 where c1: "proto_conn_create env_ok 5 (Some 10) None 1 0 0 0 (Some 11) 5
      (\<lambda>c why. 0) (Some 12) [] = (Some C1, ?tr1)"
  proof -
    have "\<exists>C. proto_conn_create env_ok 5 (Some 10) None 1 0 0 0 (Some 11) 5 (\<lambda>c why. 0)
        (Some 12) [] = (Some C, ?tr1)"
      by (simp add: engine_defs env_ok_def)
    then show ?thesis using that by blast
  qed
  have "(1::int) \<noteq> 0" by simp
  with c1 T1 have "\<exists>m h1 h2 h3 h4.
      ?tr1 = [Malloc (Some m), Events_timer_register_double CB_connect_timeout 5 (Some h1),
              Network_connect_bind (Some 10) None CB_connect_done (Some h2),
              Events_timer_register_double CB_handshake_timeout 5 (Some h3),
              Proto_handshake 5 1 0 0 (Some 11) CB_handshake_done (Some h4)] \<and>
      connect_cookie C1 = Some h2 \<and> handshake_cookie C1 = Some h4 \<and> t C1 = -1"
    by blast
  then have a: "connect_cookie C1 = Some 2 \<and> handshake_cookie C1 = Some 4 \<and> t C1 = -1"
    by simp
  have c0: "proto_conn_create env_ok 5 (Some 10) None 0 0 0 0 (Some 11) 5 (\<lambda>c why. 0) (Some 12) [] =
     (Some dialing_state, ?tr0)"
    by (simp add: engine_defs env_ok_def dialing_state_def)
  obtain tr where r0: "run env_ok [Connect_done (-1)] (Some dialing_state, ?tr0) = Some (None, tr)"
  proof -
    have "\<exists>tr. run env_ok [Connect_done (-1)] (Some dialing_state, ?tr0) = Some (None, tr)"
      by (simp add: engine_defs env_ok_def dialing_state_def)
    then show ?thesis using that by blast
  qed
  have n0: "\<not> list_ex is_dialed [Connect_done (-1)]"
    by (simp add: is_dialed_def)
  from c0 r0 n0 T0 have b: "filter is_handshake tr = []"
    by blast
  have d0: "decr dialing_state = 0" "(9::int) \<noteq> -1"
    by (simp_all add: dialing_state_def)
  with T0 have "let tr1 = [] @ [Sock_addr_freelist (sas dialing_state),
                                 Events_timer_cancel (connect_timeout_cookie dialing_state)];
           tr2 = tr1 @ [Events_timer_register_double CB_handshake_timeout (timeo dialing_state)
                          (env_ok tr1)]
       in if env_ok tr1 = None
          then filter is_handshake (snd (snd (callback_connect_done env_ok dialing_state 9 []))) =
                 filter is_handshake []
          else (\<exists>rest. snd (snd (callback_connect_done env_ok dialing_state 9 [])) =
                  tr2 @ [Proto_handshake 9 0 (nopfs dialing_state) (requirepfs dialing_state)
                           (K dialing_state) CB_handshake_done (env_ok tr2)] @ rest \<and>
                  filter is_handshake rest = [])"
    by blast
  then have c: "\<exists>rest. snd (snd (callback_connect_done env_ok dialing_state 9 [])) =
      [Sock_addr_freelist (Some 10), Events_timer_cancel (Some 1),
       Events_timer_register_double CB_handshake_timeout 5 (Some 2),
       Proto_handshake 9 0 0 0 (Some 11) CB_handshake_done (Some 3)] @ rest \<and>
      filter is_handshake rest = []"
    by (simp add: Let_def env_ok_def dialing_state_def eval_nat_numeral)
  from c1 a r0 b c show ?thesis by blast
qed

text \<open>
  Claim C4. One call of the pipe status callback: if either status is \<open>-1\<close> it drops the
  connection with reason \<^verbatim>\<open>PROTO_CONN_ERROR\<close>; else if both are \<open>0\<close> it drops it with
  reason \<^verbatim>\<open>PROTO_CONN_CLOSED\<close>; otherwise it makes no call, leaves the state as it is
  and returns \<open>0\<close>. This holds for all values of the two status variables, so for the
  nine pairs over \<open>-1\<close>, \<open>0\<close>, \<open>1\<close>.
\<close>

theorem callback_pipestatus_policy:
  "callback_pipestatus C tr =
     (if stat_f C = -1 \<or> stat_r C = -1
      then (fst (proto_conn_drop C PROTO_CONN_ERROR tr), None,
            snd (proto_conn_drop C PROTO_CONN_ERROR tr))
      else if stat_f C = 0 \<and> stat_r C = 0
      then (fst (proto_conn_drop C PROTO_CONN_CLOSED tr), None,
            snd (proto_conn_drop C PROTO_CONN_CLOSED tr))
      else (0, Some C, tr)) \<and>
   filter is_dead (snd (snd (callback_pipestatus C tr))) =
     filter is_dead tr @
     (if stat_f C = -1 \<or> stat_r C = -1 then [Callback_dead (cookie C) PROTO_CONN_ERROR]
      else if stat_f C = 0 \<and> stat_r C = 0 then [Callback_dead (cookie C) PROTO_CONN_CLOSED]
      else [])"
  by (simp add: callback_pipestatus_def dropped_def drop_tr opt_call_def is_dead_def
      split: option.splits)

text \<open>
  Claim C5. \<^verbatim>\<open>proto_conn_create\<close> returns \<^verbatim>\<open>NULL\<close> iff one of its acquiring calls was
  refused (the allocation, the dial timer, the dial, the handshake timer or the
  handshake). Then the handles it cancelled are exactly the handles it had registered,
  in the opposite order; the death callback is not called; and unless the allocation
  itself failed, the state is freed once, as the last call.
\<close>

theorem create_failure_unwinds:
  assumes "proto_conn_create E a_s a_sas a_sa_b a_decr a_nopfs a_requirepfs a_nokeepalive a_K
             a_timeo a_cb a_cookie [] = (c, tr)"
  shows "(c = None) = list_ex refused tr \<and>
         (c = None \<longrightarrow>
            cancelled tr = rev (registered tr) \<and>
            \<not> list_ex is_dead tr \<and>
            (tr = [Malloc None] \<or> (\<exists>m pre. tr = Malloc (Some m) # pre @ [Free] \<and> Free \<notin> set pre)))"
  using create_cases [OF assms]
  by (elim disjE exE conjE) simp_all

text \<open>The claim at a decrypting connection whose handshake is refused.\<close>

theorem create_failure_unwinds_witness:
  "proto_conn_create (env_refusing 4) 5 (Some 10) None 1 0 0 0 (Some 11) 5 (\<lambda>c why. 0) (Some 12) [] =
     (None,
      [Malloc (Some 0), Events_timer_register_double CB_connect_timeout 5 (Some 1),
       Network_connect_bind (Some 10) None CB_connect_done (Some 2),
       Events_timer_register_double CB_handshake_timeout 5 (Some 3),
       Proto_handshake 5 1 0 0 (Some 11) CB_handshake_done None,
       Events_timer_cancel (Some 3), Network_connect_cancel (Some 2),
       Events_timer_cancel (Some 1), Free]) \<and>
   list_ex refused
      [Malloc (Some 0), Events_timer_register_double CB_connect_timeout 5 (Some 1),
       Network_connect_bind (Some 10) None CB_connect_done (Some 2),
       Events_timer_register_double CB_handshake_timeout 5 (Some 3),
       Proto_handshake 5 1 0 0 (Some 11) CB_handshake_done None,
       Events_timer_cancel (Some 3), Network_connect_cancel (Some 2),
       Events_timer_cancel (Some 1), Free] \<and>
   cancelled
      [Malloc (Some 0), Events_timer_register_double CB_connect_timeout 5 (Some 1),
       Network_connect_bind (Some 10) None CB_connect_done (Some 2),
       Events_timer_register_double CB_handshake_timeout 5 (Some 3),
       Proto_handshake 5 1 0 0 (Some 11) CB_handshake_done None,
       Events_timer_cancel (Some 3), Network_connect_cancel (Some 2),
       Events_timer_cancel (Some 1), Free] =
     [(Timer, Some 3), (Dial, Some 2), (Timer, Some 1)] \<and>
   registered
      [Malloc (Some 0), Events_timer_register_double CB_connect_timeout 5 (Some 1),
       Network_connect_bind (Some 10) None CB_connect_done (Some 2),
       Events_timer_register_double CB_handshake_timeout 5 (Some 3),
       Proto_handshake 5 1 0 0 (Some 11) CB_handshake_done None,
       Events_timer_cancel (Some 3), Network_connect_cancel (Some 2),
       Events_timer_cancel (Some 1), Free] =
     [(Timer, Some 1), (Dial, Some 2), (Timer, Some 3)]"
proof -
  let ?tr = "[Malloc (Some 0), Events_timer_register_double CB_connect_timeout 5 (Some 1),
       Network_connect_bind (Some 10) None CB_connect_done (Some 2),
       Events_timer_register_double CB_handshake_timeout 5 (Some 3),
       Proto_handshake 5 1 0 0 (Some 11) CB_handshake_done None,
       Events_timer_cancel (Some 3), Network_connect_cancel (Some 2),
       Events_timer_cancel (Some 1), Free]"
  have c: "proto_conn_create (env_refusing 4) 5 (Some 10) None 1 0 0 0 (Some 11) 5 (\<lambda>c why. 0)
      (Some 12) [] = (None, ?tr)"
    by (simp add: engine_defs env_refusing_def)
  from create_failure_unwinds [OF c]
  have "list_ex refused ?tr \<and> cancelled ?tr = rev (registered ?tr)"
    by blast
  moreover have "registered ?tr = [(Timer, Some 1), (Dial, Some 2), (Timer, Some 3)]"
    by simp
  ultimately show ?thesis using c by simp
qed

text \<open>
  Claim C6. For every valid address, when the allocations succeed, serializing it and
  deserializing the bytes on the same host (same byte order) gives back the same address:
  same family, socket type, name length and name bytes, and \<^verbatim>\<open>sock_addr_cmp\<close> finds no
  difference.
\<close>

theorem serialize_deserialize_roundtrip:
  assumes "valid_sock_addr a" and "m 0" and "m' 0" and "m' 1"
  shows "\<exists>buf buflen a'.
           sock_addr_serialize bo m a = Inr (buf, buflen) \<and>
           buflen = length buf \<and> buflen = header_size + unat (namelen a) \<and>
           sock_addr_deserialize bo m' buf = Some a' \<and>
           a' = a \<and> sock_addr_cmp a a' = 0"
  using assms
  by (simp add: serialize_Inr deserialize_serialized valid_sock_addr_def sock_addr_cmp_def
      header_size_eq)

text \<open>The claim at an \<^verbatim>\<open>AF_INET\<close> address with a name of eight bytes.\<close>

theorem serialize_deserialize_roundtrip_witness:
  "valid_sock_addr
     \<lparr>ai_family = 2, ai_socktype = 1, name = [2, 0, 31, 144, 127, 0, 0, 1], namelen = 8\<rparr> \<and>
   sock_addr_serialize Little_endian (\<lambda>i. True)
     \<lparr>ai_family = 2, ai_socktype = 1, name = [2, 0, 31, 144, 127, 0, 0, 1], namelen = 8\<rparr> =
     Inr ([2, 0, 0, 0, 1, 0, 0, 0, 8, 0, 0, 0, 2, 0, 31, 144, 127, 0, 0, 1], 20) \<and>
   sock_addr_deserialize Little_endian (\<lambda>i. True)
     [2, 0, 0, 0, 1, 0, 0, 0, 8, 0, 0, 0, 2, 0, 31, 144, 127, 0, 0, 1] =
     Some \<lparr>ai_family = 2, ai_socktype = 1, name = [2, 0, 31, 144, 127, 0, 0, 1], namelen = 8\<rparr>"
proof -
  let ?a = "\<lparr>ai_family = 2, ai_socktype = 1, name = [2, 0, 31, 144, 127, 0, 0, 1], namelen = 8\<rparr>"
  let ?buf = "[2, 0, 0, 0, 1, 0, 0, 0, 8, 0, 0, 0, 2, 0, 31, 144, 127, 0, 0, 1] :: byte list"
  have v: "valid_sock_addr ?a"
    by (simp add: valid_sock_addr_def)
  have s: "sock_addr_serialize Little_endian (\<lambda>i. True) ?a = Inr (?buf, 20)"
    by (simp add: sock_addr_serialize_def to_bytes_def le_bytes_def sizeof_int_def
        sizeof_socklen_t_def)
  from serialize_deserialize_roundtrip [OF v, of "\<lambda>i. True" "\<lambda>i. True" Little_endian]
  obtain buf buflen where "sock_addr_serialize Little_endian (\<lambda>i. True) ?a = Inr (buf, buflen)"
    and d: "sock_addr_deserialize Little_endian (\<lambda>i. True) buf = Some ?a"
    by auto
  with s have "buf = ?buf" by simp
  with d v s show ?thesis by simp
qed

text \<open>
  Claim C7. \<^verbatim>\<open>sock_addr_deserialize\<close> returns \<^verbatim>\<open>NULL\<close> for every buffer shorter than the
  fixed header (two \<^verbatim>\<open>int\<close>s and a \<^verbatim>\<open>socklen_t\<close>) and for every buffer whose length is not
  the header size plus the name length it declares; when it succeeds the declared name
  length is exactly the length of the rest of the buffer, which is the name. It succeeds
  iff the lengths agree and both allocations succeed.
\<close>

theorem deserialize_rejects_wrong_length:
  "(length buf < header_size \<longrightarrow> sock_addr_deserialize bo m buf = None) \<and>
   (length buf \<noteq> header_size + declared_namelen bo buf \<longrightarrow>
      sock_addr_deserialize bo m buf = None) \<and>
   (\<forall>sa. sock_addr_deserialize bo m buf = Some sa \<longrightarrow>
      header_size \<le> length buf \<and> unat (namelen sa) = declared_namelen bo buf \<and>
      length buf = header_size + unat (namelen sa) \<and> name sa = drop header_size buf) \<and>
   ((sock_addr_deserialize bo m buf \<noteq> None) =
      (header_size \<le> length buf \<and> length buf = header_size + declared_namelen bo buf \<and>
       m 0 \<and> m 1))"
proof -
  have "sock_addr_deserialize bo m buf \<noteq> None" if "header_size \<le> length buf"
      "length buf = header_size + declared_namelen bo buf" "m 0" "m 1"
    using that by (simp add: deserialize_flat)
  then show ?thesis
    using deserialize_short [of buf bo m] deserialize_mismatch [of buf bo m]
      deserialize_Some [of bo m buf]
    by (cases "sock_addr_deserialize bo m buf") auto
qed

text \<open>
  The claim at the empty buffer, at a buffer that declares three name bytes and holds
  two, and at one that holds the three.
\<close>

theorem deserialize_rejects_wrong_length_witness:
  "length ([] :: byte list) < header_size \<and>
   sock_addr_deserialize Little_endian (\<lambda>i. True) [] = None \<and>
   length [2, 0, 0, 0, 1, 0, 0, 0, 3, 0, 0, 0, 7, 7 :: byte] \<noteq>
     header_size + declared_namelen Little_endian [2, 0, 0, 0, 1, 0, 0, 0, 3, 0, 0, 0, 7, 7] \<and>
   sock_addr_deserialize Little_endian (\<lambda>i. True) [2, 0, 0, 0, 1, 0, 0, 0, 3, 0, 0, 0, 7, 7] = None \<and>
   (\<exists>sa. sock_addr_deserialize Little_endian (\<lambda>i. True)
            [2, 0, 0, 0, 1, 0, 0, 0, 3, 0, 0, 0, 7, 7, 7] = Some sa \<and>
         length [2, 0, 0, 0, 1, 0, 0, 0, 3, 0, 0, 0, 7, 7, 7 :: byte] = header_size + unat (namelen sa) \<and>
         name sa = [7, 7, 7])"
proof -
  let ?ok = "\<lambda>i::nat. True"
  let ?b1 = "[2, 0, 0, 0, 1, 0, 0, 0, 3, 0, 0, 0, 7, 7 :: byte]"
  let ?b2 = "[2, 0, 0, 0, 1, 0, 0, 0, 3, 0, 0, 0, 7, 7, 7 :: byte]"
  have d1: "declared_namelen Little_endian ?b1 = 3"
    by (simp add: declared_namelen_def of_bytes_def sizeof_int_def sizeof_socklen_t_def)
  have d2: "declared_namelen Little_endian ?b2 = 3"
    by (simp add: declared_namelen_def of_bytes_def sizeof_int_def sizeof_socklen_t_def)
  have s2: "sock_addr_deserialize Little_endian ?ok ?b2 \<noteq> None"
    using deserialize_rejects_wrong_length [of ?b2 Little_endian ?ok] d2
    by (simp add: header_size_eq)
  show ?thesis
    using deserialize_rejects_wrong_length [of "[]" Little_endian ?ok]
      deserialize_rejects_wrong_length [of ?b1 Little_endian ?ok]
      deserialize_rejects_wrong_length [of ?b2 Little_endian ?ok] d1 d2 s2
    by (auto simp: header_size_eq)
qed

text \<open>
  Claim C8. \<^verbatim>\<open>sock_addr_ensure_port\<close> is idempotent: applied to a string it returned, it
  returns that string again (or \<^verbatim>\<open>NULL\<close> when its allocation fails). A string that
  already has a port is returned as it is: a UNIX path \<^verbatim>\<open>/p\<close>; an IPv4 \<^verbatim>\<open>host:p\<close>, where
  neither part has a colon; an IPv6 \<^verbatim>\<open>[h]:p\<close>, where \<open>p\<close> has no closing bracket.
\<close>

theorem ensure_port_idempotent:
  "(\<forall>y. sock_addr_ensure_port m x = Some y \<longrightarrow>
        sock_addr_ensure_port m' y = (if m' 0 then Some y else None)) \<and>
   sock_addr_ensure_port m (CHR ''/'' # p) = (if m 0 then Some (CHR ''/'' # p) else None) \<and>
   (CHR '':'' \<notin> set host \<and> CHR '':'' \<notin> set p \<longrightarrow>
      sock_addr_ensure_port m (host @ '':'' @ p) =
        (if m 0 then Some (host @ '':'' @ p) else None)) \<and>
   (CHR '']'' \<notin> set p \<longrightarrow>
      sock_addr_ensure_port m (''['' @ h @ '']:'' @ p) =
        (if m 0 then Some (''['' @ h @ '']:'' @ p) else None))"
  using ensure_port_idem [of m x _ m'] ensure_port_unix [of m p] ensure_port_ipv4 [of host p m]
    ensure_port_ipv6 [of p m h]
  by blast

text \<open>The claim at a bare IPv6 address and at two addresses with ports.\<close>

theorem ensure_port_idempotent_witness:
  "sock_addr_ensure_port (\<lambda>i. True) ''::1'' = Some ''[::1]:0'' \<and>
   sock_addr_ensure_port (\<lambda>i. True) ''[::1]:0'' = Some ''[::1]:0'' \<and>
   CHR '':'' \<notin> set ''localhost'' \<and> CHR '':'' \<notin> set ''8080'' \<and>
   sock_addr_ensure_port (\<lambda>i. True) ''localhost:8080'' = Some ''localhost:8080'' \<and>
   CHR '']'' \<notin> set ''443'' \<and>
   sock_addr_ensure_port (\<lambda>i. True) ''[fe80::1]:443'' = Some ''[fe80::1]:443''"
proof -
  have e: "sock_addr_ensure_port (\<lambda>i. True) ''::1'' = Some ''[::1]:0''"
    by (simp add: sock_addr_ensure_port_def asprintf_def strdup_def)
  show ?thesis
    using e
      ensure_port_idempotent [where m = "\<lambda>i. True" and x = "''::1''" and m' = "\<lambda>i. True"
        and host = "''localhost''" and p = "''8080''" and h = "''''"]
      ensure_port_idempotent [where m = "\<lambda>i. True" and x = "''::1''" and m' = "\<lambda>i. True"
        and host = "''''" and p = "''443''" and h = "''fe80::1''"]
    by simp
qed

text \<open>
  Claim C9. \<^verbatim>\<open>proto_conn_create\<close> never releases the address list it was given, on no
  failure path (and on no other path). The list is released by the dial callback, as its
  first call, and by \<^verbatim>\<open>proto_conn_drop\<close>, which calls \<^verbatim>\<open>sock_addr_freelist\<close> once on the
  \<open>sas\<close> field.
\<close>

theorem create_failure_keeps_sas:
  "filter is_freelist (snd (proto_conn_create E a_s a_sas a_sa_b a_decr a_nopfs a_requirepfs
       a_nokeepalive a_K a_timeo a_cb a_cookie [])) = [] \<and>
   (\<exists>rest. snd (snd (callback_connect_done E C a_t tr)) = tr @ [Sock_addr_freelist (sas C)] @ rest) \<and>
   filter is_freelist (snd (proto_conn_drop C why tr)) =
     filter is_freelist tr @ [Sock_addr_freelist (sas C)]"
proof -
  obtain c tr0 where c: "proto_conn_create E a_s a_sas a_sa_b a_decr a_nopfs a_requirepfs
       a_nokeepalive a_K a_timeo a_cb a_cookie [] = (c, tr0)"
    by (cases "proto_conn_create E a_s a_sas a_sa_b a_decr a_nopfs a_requirepfs
       a_nokeepalive a_K a_timeo a_cb a_cookie []") 
  have 1: "filter is_freelist tr0 = []"
    using create_cases [OF c] by (elim disjE exE conjE) simp_all
  have 2: "\<exists>rest. snd (snd (callback_connect_done E C a_t tr)) = tr @ [Sock_addr_freelist (sas C)] @ rest"
    by (auto simp: callback_connect_done_def Let_def emit_def dropped_def cb_err1_def drop_tr
        starthandshake_def launchpipes_def acquire_def split: prod.splits if_splits)
  show ?thesis using 1 2 c by (simp add: drop_tr)
qed

text \<open>
  Claim C10. Called with exactly one null key, the handshake callback fails an
  assertion and drops nothing. Called with two null keys, or with two non-null keys,
  both assertions hold, and after cancelling the handshake timer and clearing both
  handshake cookies the callback does exactly this. With two null keys it returns what
  \<^verbatim>\<open>proto_conn_drop\<close> with reason \<^verbatim>\<open>PROTO_CONN_HANDSHAKE_FAILED\<close> does on that state. With
  two non-null keys it stores both; if the dial has not completed it returns \<open>0\<close> with
  the state holding the keys; otherwise it runs \<^verbatim>\<open>launchpipes\<close> on that state, which
  leaves the keys in place, and returns \<open>0\<close> with the state if that succeeded, or \<open>-1\<close>
  after \<^verbatim>\<open>proto_conn_drop\<close> with reason \<^verbatim>\<open>PROTO_CONN_ERROR\<close> on the state that
  \<^verbatim>\<open>launchpipes\<close> left. So the death callback is called once with the reason of the
  drop, and the drop after a failed launch frees exactly the two keys given.
\<close>

theorem handshake_done_keys:
  "((f = None) \<noteq> (r = None) \<longrightarrow>
      callback_handshake_done E C f r tr = Inl Assertion_failed) \<and>
   ((f = None) = (r = None) \<longrightarrow>
      callback_handshake_done E C f r tr =
        (let C1 = C\<lparr>handshake_cookie := None, handshake_timeout_cookie := None\<rparr>;
             tr1 = tr @ [Events_timer_cancel (handshake_timeout_cookie C)]
         in if f = None
            then Inr (fst (proto_conn_drop C1 PROTO_CONN_HANDSHAKE_FAILED tr1), None,
                      snd (proto_conn_drop C1 PROTO_CONN_HANDSHAKE_FAILED tr1))
            else (let C2 = C1\<lparr>k_f := f, k_r := r\<rparr>
                  in if t C = -1 then Inr (0, Some C2, tr1)
                     else (case launchpipes E C2 tr1 of
                             (rc, C3, tr3) \<Rightarrow>
                               if rc \<noteq> 0
                               then Inr (-1, None,
                                         snd (proto_conn_drop C3 PROTO_CONN_ERROR tr3))
                               else Inr (0, Some C3, tr3))))) \<and>
   k_f (fst (snd (launchpipes E C tr))) = k_f C \<and>
   k_r (fst (snd (launchpipes E C tr))) = k_r C \<and>
   ((f = None) = (r = None) \<longrightarrow>
      (\<exists>rc c tr'. callback_handshake_done E C f r tr = Inr (rc, c, tr') \<and>
         (if f = None
          then c = None \<and>
               filter is_dead tr' =
                 filter is_dead tr @ [Callback_dead (cookie C) PROTO_CONN_HANDSHAKE_FAILED]
          else (case c of
                  Some C' \<Rightarrow> k_f C' = f \<and> k_r C' = r
                | None \<Rightarrow>
                    filter is_crypt_free tr' =
                      filter is_crypt_free tr @ [Proto_crypt_free f, Proto_crypt_free r] \<and>
                    filter is_dead tr' =
                      filter is_dead tr @ [Callback_dead (cookie C) PROTO_CONN_ERROR]))))"
proof -
  have one: "(f = None) \<noteq> (r = None) \<longrightarrow>
      callback_handshake_done E C f r tr = Inl Assertion_failed"
    using handshake_done_one_key [of f r E C tr] by blast
  have eq: "(f = None) = (r = None) \<longrightarrow>
      callback_handshake_done E C f r tr =
        (let C1 = C\<lparr>handshake_cookie := None, handshake_timeout_cookie := None\<rparr>;
             tr1 = tr @ [Events_timer_cancel (handshake_timeout_cookie C)]
         in if f = None
            then Inr (fst (proto_conn_drop C1 PROTO_CONN_HANDSHAKE_FAILED tr1), None,
                      snd (proto_conn_drop C1 PROTO_CONN_HANDSHAKE_FAILED tr1))
            else (let C2 = C1\<lparr>k_f := f, k_r := r\<rparr>
                  in if t C = -1 then Inr (0, Some C2, tr1)
                     else (case launchpipes E C2 tr1 of
                             (rc, C3, tr3) \<Rightarrow>
                               if rc \<noteq> 0
                               then Inr (-1, None,
                                         snd (proto_conn_drop C3 PROTO_CONN_ERROR tr3))
                               else Inr (0, Some C3, tr3))))"
  proof (cases "f = None")
    case True
    then show ?thesis
      by (auto simp: handshake_done_failed dropped_def Let_def split: prod.splits)
  next
    case False
    then show ?thesis
      using handshake_done_installs [of f r E C tr] by (auto simp: Let_def)
  qed
  have old: "(f = None) = (r = None) \<longrightarrow>
      (\<exists>rc c tr'. callback_handshake_done E C f r tr = Inr (rc, c, tr') \<and>
         (if f = None
          then c = None \<and>
               filter is_dead tr' =
                 filter is_dead tr @ [Callback_dead (cookie C) PROTO_CONN_HANDSHAKE_FAILED]
          else (case c of
                  Some C' \<Rightarrow> k_f C' = f \<and> k_r C' = r
                | None \<Rightarrow>
                    filter is_crypt_free tr' =
                      filter is_crypt_free tr @ [Proto_crypt_free f, Proto_crypt_free r] \<and>
                    filter is_dead tr' =
                      filter is_dead tr @ [Callback_dead (cookie C) PROTO_CONN_ERROR])))"
  proof (cases "f = None")
    case True
    then show ?thesis
      using handshake_done_no_keys [of E C tr] by auto
  next
    case False
    then show ?thesis
      using handshake_done_two_keys [of f r E C tr] by auto
  qed
  from one eq old launchpipes_keys [of E C tr] show ?thesis
    by blast
qed


text \<open>
  The claim at a decrypting connection whose handshake is in flight. While the dial is
  still in flight: one null key, the other null key, two null keys, two keys. After the
  dial has given socket 7: two keys when the second pipe is refused, and two keys when
  both pipes are granted.
\<close>

theorem handshake_done_keys_witness:
  "callback_handshake_done env_ok
      (dialing_state\<lparr>decr := 1, handshake_cookie := Some 4, handshake_timeout_cookie := Some 3\<rparr>)
      None (Some 101) [] = Inl Assertion_failed \<and>
   callback_handshake_done env_ok
      (dialing_state\<lparr>decr := 1, handshake_cookie := Some 4, handshake_timeout_cookie := Some 3\<rparr>)
      (Some 100) None [] = Inl Assertion_failed \<and>
   callback_handshake_done env_ok
      (dialing_state\<lparr>decr := 1, handshake_cookie := Some 4, handshake_timeout_cookie := Some 3\<rparr>)
      None None [] =
     Inr (0, None,
          [Events_timer_cancel (Some 3), Close 5, Network_connect_cancel (Some 2),
           Sock_addr_freelist (Some 10), Events_timer_cancel (Some 1),
           Proto_crypt_free None, Proto_crypt_free None,
           Callback_dead (Some 12) PROTO_CONN_HANDSHAKE_FAILED, Free]) \<and>
   callback_handshake_done env_ok
      (dialing_state\<lparr>decr := 1, handshake_cookie := Some 4, handshake_timeout_cookie := Some 3\<rparr>)
      (Some 100) (Some 101) [] =
     Inr (0,
          Some (dialing_state\<lparr>decr := 1, handshake_cookie := None,
                  handshake_timeout_cookie := None, k_f := Some 100, k_r := Some 101\<rparr>),
          [Events_timer_cancel (Some 3)]) \<and>
   callback_handshake_done (env_refusing 6)
      (dialing_state\<lparr>sas := None, decr := 1, t := 7, connect_cookie := None,
         connect_timeout_cookie := None, handshake_cookie := Some 4,
         handshake_timeout_cookie := Some 3\<rparr>)
      (Some 100) (Some 101) [] =
     Inr (-1, None,
          [Events_timer_cancel (Some 3),
           Setsockopt 5 SOL_SOCKET SO_KEEPALIVE 1, Setsockopt 7 SOL_SOCKET SO_KEEPALIVE 1,
           Setsockopt 5 IPPROTO_TCP TCP_NODELAY 1, Setsockopt 7 IPPROTO_TCP TCP_NODELAY 1,
           Proto_pipe 5 7 1 (Some 100) Stat_f CB_pipestatus (Some 5),
           Proto_pipe 7 5 0 (Some 101) Stat_r CB_pipestatus None,
           Close 5, Close 7, Sock_addr_freelist None,
           Proto_crypt_free (Some 100), Proto_crypt_free (Some 101),
           Proto_pipe_cancel (Some 5),
           Callback_dead (Some 12) PROTO_CONN_ERROR, Free]) \<and>
   callback_handshake_done env_ok
      (dialing_state\<lparr>sas := None, decr := 1, t := 7, connect_cookie := None,
         connect_timeout_cookie := None, handshake_cookie := Some 4,
         handshake_timeout_cookie := Some 3\<rparr>)
      (Some 100) (Some 101) [] =
     Inr (0,
          Some (dialing_state\<lparr>sas := None, decr := 1, t := 7, connect_cookie := None,
                  connect_timeout_cookie := None, handshake_cookie := None,
                  handshake_timeout_cookie := None, k_f := Some 100, k_r := Some 101,
                  pipe_f := Some 5, pipe_r := Some 6\<rparr>),
          [Events_timer_cancel (Some 3),
           Setsockopt 5 SOL_SOCKET SO_KEEPALIVE 1, Setsockopt 7 SOL_SOCKET SO_KEEPALIVE 1,
           Setsockopt 5 IPPROTO_TCP TCP_NODELAY 1, Setsockopt 7 IPPROTO_TCP TCP_NODELAY 1,
           Proto_pipe 5 7 1 (Some 100) Stat_f CB_pipestatus (Some 5),
           Proto_pipe 7 5 0 (Some 101) Stat_r CB_pipestatus (Some 6)])"
proof -
  let ?Cd = "dialing_state\<lparr>decr := 1, handshake_cookie := Some 4,
               handshake_timeout_cookie := Some 3\<rparr>"
  let ?Ce = "dialing_state\<lparr>sas := None, decr := 1, t := 7, connect_cookie := None,
               connect_timeout_cookie := None, handshake_cookie := Some 4,
               handshake_timeout_cookie := Some 3\<rparr>"
  note rhs = proto_conn_drop_def launchpipes_def acquire_def emit_def Let_def
    dialing_state_def env_ok_def env_refusing_def
  have 1: "callback_handshake_done env_ok ?Cd None (Some 101) [] = Inl Assertion_failed"
    using handshake_done_keys [where E = env_ok and C = ?Cd and tr = "[]" and f = None
        and r = "Some 101"]
    by simp
  have 2: "callback_handshake_done env_ok ?Cd (Some 100) None [] = Inl Assertion_failed"
    using handshake_done_keys [where E = env_ok and C = ?Cd and tr = "[]" and f = "Some 100"
        and r = None]
    by simp
  have 3: "callback_handshake_done env_ok ?Cd None None [] =
     Inr (0, None,
          [Events_timer_cancel (Some 3), Close 5, Network_connect_cancel (Some 2),
           Sock_addr_freelist (Some 10), Events_timer_cancel (Some 1),
           Proto_crypt_free None, Proto_crypt_free None,
           Callback_dead (Some 12) PROTO_CONN_HANDSHAKE_FAILED, Free])"
    using handshake_done_keys [where E = env_ok and C = ?Cd and tr = "[]" and f = None
        and r = None]
    by (simp add: rhs)
  have 4: "callback_handshake_done env_ok ?Cd (Some 100) (Some 101) [] =
     Inr (0,
          Some (dialing_state\<lparr>decr := 1, handshake_cookie := None,
                  handshake_timeout_cookie := None, k_f := Some 100, k_r := Some 101\<rparr>),
          [Events_timer_cancel (Some 3)])"
    using handshake_done_keys [where E = env_ok and C = ?Cd and tr = "[]" and f = "Some 100"
        and r = "Some 101"]
    by (simp add: rhs)
  have 5: "callback_handshake_done (env_refusing 6) ?Ce (Some 100) (Some 101) [] =
     Inr (-1, None,
          [Events_timer_cancel (Some 3),
           Setsockopt 5 SOL_SOCKET SO_KEEPALIVE 1, Setsockopt 7 SOL_SOCKET SO_KEEPALIVE 1,
           Setsockopt 5 IPPROTO_TCP TCP_NODELAY 1, Setsockopt 7 IPPROTO_TCP TCP_NODELAY 1,
           Proto_pipe 5 7 1 (Some 100) Stat_f CB_pipestatus (Some 5),
           Proto_pipe 7 5 0 (Some 101) Stat_r CB_pipestatus None,
           Close 5, Close 7, Sock_addr_freelist None,
           Proto_crypt_free (Some 100), Proto_crypt_free (Some 101),
           Proto_pipe_cancel (Some 5),
           Callback_dead (Some 12) PROTO_CONN_ERROR, Free])"
    using handshake_done_keys [where E = "env_refusing 6" and C = ?Ce and tr = "[]"
        and f = "Some 100" and r = "Some 101"]
    by (simp add: rhs)
  have 6: "callback_handshake_done env_ok ?Ce (Some 100) (Some 101) [] =
     Inr (0,
          Some (dialing_state\<lparr>sas := None, decr := 1, t := 7, connect_cookie := None,
                  connect_timeout_cookie := None, handshake_cookie := None,
                  handshake_timeout_cookie := None, k_f := Some 100, k_r := Some 101,
                  pipe_f := Some 5, pipe_r := Some 6\<rparr>),
          [Events_timer_cancel (Some 3),
           Setsockopt 5 SOL_SOCKET SO_KEEPALIVE 1, Setsockopt 7 SOL_SOCKET SO_KEEPALIVE 1,
           Setsockopt 5 IPPROTO_TCP TCP_NODELAY 1, Setsockopt 7 IPPROTO_TCP TCP_NODELAY 1,
           Proto_pipe 5 7 1 (Some 100) Stat_f CB_pipestatus (Some 5),
           Proto_pipe 7 5 0 (Some 101) Stat_r CB_pipestatus (Some 6)])"
    using handshake_done_keys [where E = env_ok and C = ?Ce and tr = "[]" and f = "Some 100"
        and r = "Some 101"]
    by (simp add: rhs)
  from 1 2 3 4 5 6 show ?thesis
    by blast
qed

end
